theory Spec2Isabelle
  imports Main
begin

section \<open>The outside world\<close>

text \<open>
  The two modules talk to the OAuth2 token endpoint, to the Dropbox SDK client, to the local
  file system and to the clock. None of these is code of the repository, so they are
  parameters of the model: a \<open>world\<close> answers every request, as a function of the number of
  requests and writes made so far (the length of the trace), of the access token the client
  was built with and of the remote path. Calls are sequential (one \<open>await\<close> after the other);
  console output is not part of the model.
\<close>

text \<open>
  What a \<open>catch\<close> can receive. Only the SDK's response error has a \<open>status\<close> property; for
  every other error \<open>error.status\<close> is \<open>undefined\<close>.
\<close>

datatype js_error =
    Error string
  | DropboxResponseError nat string
  | FetchError string
  | SyntaxError string
  | TypeError string

fun status_of :: "js_error \<Rightarrow> nat option" where
  "status_of (DropboxResponseError st summary) = Some st"
| "status_of e = None"

text \<open>
  The answer of the token endpoint: a 2xx response whose body is a JSON object, with its
  \<open>access_token\<close> property (\<open>None\<close> when the object has none); a 2xx response whose body is
  not JSON; or a failure, with the response's status and body when there was a response,
  and the message of the error.
\<close>

datatype token_response =
    TokenJson "string option"
  | TokenNotJson string
  | TokenFailure "(nat \<times> string) option" string

text \<open>
  \<open>result\<close> of \<open>filesGetMetadata\<close>. The property \<open>rev\<close> is the field \<open>rev_id\<close> (\<open>rev\<close> is
  the reversal of lists in HOL); it is absent for a folder.
\<close>

record file_meta =
  rev_id :: "string option"
  server_modified :: "string option"

text \<open>\<open>result\<close> of \<open>filesDownload\<close>: the same metadata and the content.\<close>

record download_result = file_meta +
  fileBinary :: "string option"
  fileBlob :: "string option"

text \<open>The object stored in the \<open>.meta.json\<close> sidecar.\<close>

record cached_meta = file_meta +
  last_updated :: "string option"

text \<open>
  The answer of \<open>usersGetCurrentAccount\<close>, as far as the code reads it: the value of
  \<open>account?.result?.name?.display_name\<close> (\<open>None\<close> when a link of the chain is missing).
\<close>

record account =
  result_name_display_name :: "string option"

text \<open>
  A file's content: \<open>Json m\<close> is a text that \<open>JSON.parse\<close> turns into an object with the
  properties of \<open>m\<close> (what \<open>JSON.stringify\<close> writes: an \<open>undefined\<close> property is left out and
  read back as \<open>undefined\<close>); \<open>Binary b\<close> is any other content, on which \<open>JSON.parse\<close> throws.
\<close>

datatype file_data = Binary string | Json cached_meta

datatype client = Dropbox (accessToken: "string option")

datatype event =
    TokenRequest token_response
  | GetMetadata "string option" string "js_error + file_meta"
  | Download "string option" string "js_error + download_result"
  | GetAccount "string option" "js_error + account"
  | WriteFile string file_data

record world =
  tmpdir :: string
  sha256_hex :: "string \<Rightarrow> string"
  token_endpoint :: "nat \<Rightarrow> token_response"
  api_filesGetMetadata :: "nat \<Rightarrow> string option \<Rightarrow> string \<Rightarrow> js_error + file_meta"
  api_filesDownload :: "nat \<Rightarrow> string option \<Rightarrow> string \<Rightarrow> js_error + download_result"
  api_usersGetCurrentAccount :: "nat \<Rightarrow> string option \<Rightarrow> js_error + account"
  clock :: "nat \<Rightarrow> string"

text \<open>
  The module-level variables of both modules (\<open>dbxInstance\<close> and \<open>currentAccessToken\<close> of the
  retrying module, \<open>dbx\<close> of \<open>services/dropboxService.js\<close>), the files on disk and the trace
  of the requests and writes made so far, oldest first.
\<close>

record state =
  dbxInstance :: "client option"
  currentAccessToken :: "string option"
  dbx :: "client option"
  files :: "string \<rightharpoonup> file_data"
  trace :: "event list"

text \<open>JavaScript truthiness of a string that may be \<open>null\<close> or \<open>undefined\<close>.\<close>

definition truthy :: "string option \<Rightarrow> bool" where
  "truthy v = (case v of None \<Rightarrow> False | Some str \<Rightarrow> str \<noteq> [])"

section \<open>Calls to the SDK client and to the file system\<close>

definition filesGetMetadata :: "world \<Rightarrow> state \<Rightarrow> client \<Rightarrow> string \<Rightarrow> state \<times> (js_error + file_meta)" where
  "filesGetMetadata w s c p =
     (let r = api_filesGetMetadata w (length (trace s)) (accessToken c) p
      in (s\<lparr>trace := trace s @ [GetMetadata (accessToken c) p r]\<rparr>, r))"

definition filesDownload :: "world \<Rightarrow> state \<Rightarrow> client \<Rightarrow> string \<Rightarrow> state \<times> (js_error + download_result)" where
  "filesDownload w s c p =
     (let r = api_filesDownload w (length (trace s)) (accessToken c) p
      in (s\<lparr>trace := trace s @ [Download (accessToken c) p r]\<rparr>, r))"

definition usersGetCurrentAccount :: "world \<Rightarrow> state \<Rightarrow> client \<Rightarrow> state \<times> (js_error + account)" where
  "usersGetCurrentAccount w s c =
     (let r = api_usersGetCurrentAccount w (length (trace s)) (accessToken c)
      in (s\<lparr>trace := trace s @ [GetAccount (accessToken c) r]\<rparr>, r))"

text \<open>
  What the code passes to \<open>fs.writeFileSync\<close>: a Buffer (\<open>fileBinary\<close>), a Blob
  (\<open>fileBlob\<close>), or the string \<open>JSON.stringify\<close> made of a metadata object.
\<close>

datatype js_data = Buffer string | Blob string | JsonText cached_meta

text \<open>
  \<open>fs.writeFileSync\<close> accepts a string or a Buffer and replaces the file. Data of
  another type, a Blob or \<open>undefined\<close>, is rejected with a \<open>TypeError\<close> before the file
  is touched (the disk itself does not fail in this model).
\<close>

definition writeFileSync :: "state \<Rightarrow> string \<Rightarrow> js_data option \<Rightarrow> state \<times> (js_error + unit)" where
  "writeFileSync s file d =
     (case d of
        Some (Buffer b) \<Rightarrow>
          (s\<lparr>files := (files s)(file \<mapsto> Binary b),
             trace := trace s @ [WriteFile file (Binary b)]\<rparr>, Inr ())
      | Some (JsonText m) \<Rightarrow>
          (s\<lparr>files := (files s)(file \<mapsto> Json m),
             trace := trace s @ [WriteFile file (Json m)]\<rparr>, Inr ())
      | Some (Blob b) \<Rightarrow> (s, Inl (TypeError ''ERR_INVALID_ARG_TYPE''))
      | None \<Rightarrow> (s, Inl (TypeError ''ERR_INVALID_ARG_TYPE'')))"

text \<open>\<open>JSON.parse(fs.readFileSync(metaPath, 'utf8'))\<close>.\<close>

definition readMeta :: "state \<Rightarrow> string \<Rightarrow> js_error + cached_meta" where
  "readMeta s file =
     (case files s file of
        None \<Rightarrow> Inl (Error ''ENOENT'')
      | Some (Binary b) \<Rightarrow> Inl (SyntaxError ''Unexpected token'')
      | Some (Json m) \<Rightarrow> Inr m)"

section \<open>The retrying module\<close>

text \<open>
  \<open>refreshAccessToken\<close>: one request to the token endpoint. A 2xx answer is never an
  error for axios: \<open>response.data.access_token\<close> is stored as it is, \<open>undefined\<close> when the
  body is not JSON (axios then gives the body as a string) or has no such property. Any
  failure is caught and replaced by a new \<open>Error\<close> with a fixed message.
\<close>

definition refreshAccessToken :: "world \<Rightarrow> state \<Rightarrow> state \<times> (js_error + string option)" where
  "refreshAccessToken w s =
     (let response = token_endpoint w (length (trace s));
          s1 = s\<lparr>trace := trace s @ [TokenRequest response]\<rparr>
      in case response of
           TokenJson access_token \<Rightarrow> (s1\<lparr>currentAccessToken := access_token\<rparr>, Inr access_token)
         | TokenNotJson body \<Rightarrow> (s1\<lparr>currentAccessToken := None\<rparr>, Inr None)
         | TokenFailure resp message \<Rightarrow>
             (s1, Inl (Error ''No se pudo refrescar el token de acceso a Dropbox'')))"

text \<open>
  \<open>getDropboxInstance\<close>: \<open>if (!dbxInstance || !currentAccessToken)\<close> refreshes the token and
  builds a new client; otherwise the held client is returned. The \<open>case\<close> below returns
  the held client exactly when \<open>dbxInstance\<close> is not \<open>null\<close> and the token is truthy.
\<close>

definition getDropboxInstance :: "world \<Rightarrow> state \<Rightarrow> state \<times> (js_error + client)" where
  "getDropboxInstance w s =
     (case (if truthy (currentAccessToken s) then dbxInstance s else None) of
        Some c \<Rightarrow> (s, Inr c)
      | None \<Rightarrow>
          (case refreshAccessToken w s of
             (s1, Inl e) \<Rightarrow> (s1, Inl e)
           | (s1, Inr t) \<Rightarrow>
               (s1\<lparr>dbxInstance := Some (Dropbox (currentAccessToken s1))\<rparr>,
                Inr (Dropbox (currentAccessToken s1)))))"

text \<open>
  \<open>path.join\<close> of the temporary directory and a directory name, and of the cache
  directory and the hexadecimal SHA-256 digest of the remote path (POSIX separator, the
  temporary directory given without a trailing separator, as \<open>os.tmpdir()\<close> returns it).
\<close>

definition cacheDir :: "world \<Rightarrow> string" where
  "cacheDir w = tmpdir w @ ''/'' @ ''dropbox_cache''"

definition hashString :: "world \<Rightarrow> string \<Rightarrow> string" where
  "hashString w str = sha256_hex w str"

definition getCacheFilePath :: "world \<Rightarrow> string \<Rightarrow> string" where
  "getCacheFilePath w dropboxPath = cacheDir w @ ''/'' @ hashString w dropboxPath"

text \<open>
  The first block of \<open>downloadFile\<close>, the check of the cached copy: the copy is current
  (\<open>Fresh\<close>, the function returns), it is not (\<open>Stale\<close>), the check threw (\<open>CheckFailed\<close>, the
  \<open>catch\<close> swallows the error), or one of the two files is missing (\<open>NotCached\<close>).
\<close>

datatype cache_check = Fresh | Stale | CheckFailed js_error | NotCached

definition checkCache :: "world \<Rightarrow> state \<Rightarrow> string \<Rightarrow> state \<times> cache_check" where
  "checkCache w s dropboxPath =
     (let localPath = getCacheFilePath w dropboxPath;
          metaPath = localPath @ ''.meta.json''
      in if files s localPath \<noteq> None \<and> files s metaPath \<noteq> None then
           (case readMeta s metaPath of
              Inl e \<Rightarrow> (s, CheckFailed e)
            | Inr cachedMeta \<Rightarrow>
                (case getDropboxInstance w s of
                   (s1, Inl e) \<Rightarrow> (s1, CheckFailed e)
                 | (s1, Inr c) \<Rightarrow>
                     (case filesGetMetadata w s1 c dropboxPath of
                        (s2, Inl e) \<Rightarrow> (s2, CheckFailed e)
                      | (s2, Inr currentMeta) \<Rightarrow>
                          if rev_id currentMeta = rev_id cachedMeta then (s2, Fresh)
                          else (s2, Stale))))
         else (s, NotCached))"

text \<open>The \<open>try\<close> block of one attempt of the download loop.\<close>

definition tryDownload :: "world \<Rightarrow> state \<Rightarrow> string \<Rightarrow> state \<times> (js_error + string)" where
  "tryDownload w s dropboxPath =
     (let localPath = getCacheFilePath w dropboxPath;
          metaPath = localPath @ ''.meta.json''
      in case getDropboxInstance w s of
           (s1, Inl e) \<Rightarrow> (s1, Inl e)
         | (s1, Inr c) \<Rightarrow>
             (case filesDownload w s1 c dropboxPath of
                (s2, Inl e) \<Rightarrow> (s2, Inl e)
              | (s2, Inr response) \<Rightarrow>
                  (case writeFileSync s2 localPath (map_option Buffer (fileBinary response)) of
                     (s3, Inl e) \<Rightarrow> (s3, Inl e)
                   | (s3, Inr u) \<Rightarrow>
                       (case writeFileSync s3 metaPath
                               (Some (JsonText
                                        \<lparr>rev_id = rev_id response,
                                         server_modified = server_modified response,
                                         last_updated = Some (clock w (length (trace s3)))\<rparr>)) of
                          (s4, Inl e) \<Rightarrow> (s4, Inl e)
                        | (s4, Inr u') \<Rightarrow> (s4, Inr localPath)))))"

text \<open>
  The \<open>for\<close> loop and the \<open>throw\<close> after it. A \<open>break\<close> leaves the loop with \<open>lastError\<close> just
  set to the error caught, so \<open>throw lastError || ...\<close> throws that error.
\<close>

function downloadLoop ::
  "world \<Rightarrow> state \<Rightarrow> string \<Rightarrow> int \<Rightarrow> int \<Rightarrow> js_error option \<Rightarrow> state \<times> (js_error + string)" where
  "downloadLoop w s dropboxPath attempt maxRetries lastError =
     (if attempt \<le> maxRetries then
        (case tryDownload w s dropboxPath of
           (s1, Inr localPath) \<Rightarrow> (s1, Inr localPath)
         | (s1, Inl error) \<Rightarrow>
             if status_of error = Some 401 \<and> attempt < maxRetries
             then downloadLoop w (s1\<lparr>dbxInstance := None, currentAccessToken := None\<rparr>)
                    dropboxPath (attempt + 1) maxRetries (Some error)
             else (s1, Inl error))
      else (s, Inl (case lastError of
                      Some e \<Rightarrow> e
                    | None \<Rightarrow> Error ''Error desconocido al descargar archivo'')))"
  by pat_completeness auto
termination
  by (relation "measure (\<lambda>(w, s, p, attempt, maxRetries, e). nat (maxRetries - attempt + 1))") auto

declare downloadLoop.simps [simp del]

text \<open>
  \<open>downloadFile\<close>: the check of the cached copy, then the download loop starting at
  attempt 1 with \<open>lastError = null\<close>.
\<close>

definition downloadFile :: "world \<Rightarrow> state \<Rightarrow> string \<Rightarrow> int \<Rightarrow> state \<times> (js_error + string)" where
  "downloadFile w s dropboxPath maxRetries =
     (case checkCache w s dropboxPath of
        (s1, Fresh) \<Rightarrow> (s1, Inr (getCacheFilePath w dropboxPath))
      | (s1, other) \<Rightarrow> downloadLoop w s1 dropboxPath 1 maxRetries None)"

text \<open>
  \<open>testConnection\<close>: everything is inside \<open>try\<close>, and the \<open>catch\<close> returns \<open>false\<close>.
\<close>

definition testConnection :: "world \<Rightarrow> state \<Rightarrow> state \<times> bool" where
  "testConnection w s =
     (case getDropboxInstance w s of
        (s1, Inl e) \<Rightarrow> (s1, False)
      | (s1, Inr c) \<Rightarrow>
          (case usersGetCurrentAccount w s1 c of
             (s2, Inl e) \<Rightarrow> (s2, False)
           | (s2, Inr account) \<Rightarrow> (s2, truthy (result_name_display_name account))))"

section \<open>The module \<open>services/dropboxService.js\<close>\<close>

text \<open>
  \<open>getDropboxInstance\<close> of this module: the held client, or one token request with
  \<open>fetch\<close> (which throws only when there is no response; an answer that is not \<open>ok\<close>
  makes the code throw an \<open>Error\<close> with the body, and \<open>tokenResponse.json()\<close> throws on a
  body that is not JSON), then the client is stored in \<open>dbx\<close> and the account query is
  made, whose error is thrown again with the client left in \<open>dbx\<close>.
\<close>

definition getDropboxInstance_simple :: "world \<Rightarrow> state \<Rightarrow> state \<times> (js_error + client)" where
  "getDropboxInstance_simple w s =
     (case dbx s of
        Some c \<Rightarrow> (s, Inr c)
      | None \<Rightarrow>
          (let tokenResponse = token_endpoint w (length (trace s));
               s1 = s\<lparr>trace := trace s @ [TokenRequest tokenResponse]\<rparr>
           in case tokenResponse of
                TokenFailure None message \<Rightarrow> (s1, Inl (FetchError message))
              | TokenFailure (Some (st, errorText)) message \<Rightarrow>
                  (s1, Inl (Error (''Failed to refresh access token: '' @ errorText)))
              | TokenNotJson body \<Rightarrow> (s1, Inl (FetchError ''invalid json response body''))
              | TokenJson access_token \<Rightarrow>
                  (case usersGetCurrentAccount w (s1\<lparr>dbx := Some (Dropbox access_token)\<rparr>)
                          (Dropbox access_token) of
                     (s2, Inl e) \<Rightarrow> (s2, Inl e)
                   | (s2, Inr currentAccount) \<Rightarrow> (s2, Inr (Dropbox access_token)))))"

definition cacheDir_simple :: "world \<Rightarrow> string" where
  "cacheDir_simple w = tmpdir w @ ''/'' @ ''ijcvwabot_dropbox_cache''"

definition getCacheFilePath_simple :: "world \<Rightarrow> string \<Rightarrow> string" where
  "getCacheFilePath_simple w dropboxPath = cacheDir_simple w @ ''/'' @ hashString w dropboxPath"

definition checkCache_simple :: "world \<Rightarrow> state \<Rightarrow> string \<Rightarrow> state \<times> cache_check" where
  "checkCache_simple w s dropboxPath =
     (let localPath = getCacheFilePath_simple w dropboxPath;
          metaPath = localPath @ ''.meta.json''
      in if files s localPath \<noteq> None \<and> files s metaPath \<noteq> None then
           (case readMeta s metaPath of
              Inl e \<Rightarrow> (s, CheckFailed e)
            | Inr meta \<Rightarrow>
                (case getDropboxInstance_simple w s of
                   (s1, Inl e) \<Rightarrow> (s1, CheckFailed e)
                 | (s1, Inr c) \<Rightarrow>
                     (case filesGetMetadata w s1 c dropboxPath of
                        (s2, Inl e) \<Rightarrow> (s2, CheckFailed e)
                      | (s2, Inr currentMeta) \<Rightarrow>
                          if rev_id currentMeta = rev_id meta then (s2, Fresh)
                          else (s2, Stale))))
         else (s, NotCached))"

text \<open>
  \<open>a || b\<close> on values that are truthy whenever they are present (a Buffer, a Blob). The
  data written below is \<open>fileBinary || fileBlob || fileBinary\<close>: the Buffer when there is
  one, else the Blob, which \<open>fs.writeFileSync\<close> rejects.
\<close>

definition js_or :: "'a option \<Rightarrow> 'a option \<Rightarrow> 'a option" where
  "js_or a b = (case a of Some v \<Rightarrow> Some v | None \<Rightarrow> b)"

definition tryDownload_simple :: "world \<Rightarrow> state \<Rightarrow> string \<Rightarrow> state \<times> (js_error + string)" where
  "tryDownload_simple w s dropboxPath =
     (let localPath = getCacheFilePath_simple w dropboxPath;
          metaPath = localPath @ ''.meta.json''
      in case getDropboxInstance_simple w s of
           (s1, Inl e) \<Rightarrow> (s1, Inl e)
         | (s1, Inr c) \<Rightarrow>
             (case filesDownload w s1 c dropboxPath of
                (s2, Inl e) \<Rightarrow> (s2, Inl e)
              | (s2, Inr response) \<Rightarrow>
                  (case writeFileSync s2 localPath
                          (js_or (js_or (map_option Buffer (fileBinary response))
                                    (map_option Blob (fileBlob response)))
                             (map_option Buffer (fileBinary response))) of
                     (s3, Inl e) \<Rightarrow> (s3, Inl e)
                   | (s3, Inr u) \<Rightarrow>
                       (case writeFileSync s3 metaPath
                               (Some (JsonText
                                        \<lparr>rev_id = rev_id response,
                                         server_modified = server_modified response,
                                         last_updated = None\<rparr>)) of
                          (s4, Inl e) \<Rightarrow> (s4, Inl e)
                        | (s4, Inr u') \<Rightarrow> (s4, Inr localPath)))))"

text \<open>
  \<open>downloadFile\<close> of this module: the same check, then one download without retry.
\<close>

definition downloadFile_simple :: "world \<Rightarrow> state \<Rightarrow> string \<Rightarrow> state \<times> (js_error + string)" where
  "downloadFile_simple w s dropboxPath =
     (case checkCache_simple w s dropboxPath of
        (s1, Fresh) \<Rightarrow> (s1, Inr (getCacheFilePath_simple w dropboxPath))
      | (s1, other) \<Rightarrow> tryDownload_simple w s1 dropboxPath)"

section \<open>Vocabulary of the properties\<close>

text \<open>
  The predicates below are not code of the repository: they read the trace and the files
  of a run, to state what a run did.
\<close>

text \<open>A client and a non-empty token are held: \<open>getDropboxInstance\<close> makes no request.\<close>

definition held :: "state \<Rightarrow> bool" where
  "held s = (dbxInstance s \<noteq> None \<and> truthy (currentAccessToken s))"

text \<open>The kinds of events: calls of \<open>filesDownload\<close>, writes, token requests.\<close>

fun is_download :: "event \<Rightarrow> bool" where
  "is_download (Download tok p r) = True"
| "is_download ev = False"

fun is_write :: "event \<Rightarrow> bool" where
  "is_write (WriteFile file d) = True"
| "is_write ev = False"

fun is_token_request :: "event \<Rightarrow> bool" where
  "is_token_request (TokenRequest r) = True"
| "is_token_request ev = False"

text \<open>
  \<open>raises ev e\<close>: the call recorded as \<open>ev\<close> made the \<open>try\<close> block of the retrying module
  throw \<open>e\<close> (a failed token request, a failed download, or a download without
  \<open>fileBinary\<close>, whose write is rejected).
\<close>

fun raises :: "event \<Rightarrow> js_error \<Rightarrow> bool" where
  "raises (TokenRequest (TokenFailure resp message)) e =
     (e = Error ''No se pudo refrescar el token de acceso a Dropbox'')"
| "raises (Download tok p (Inl e')) e = (e = e')"
| "raises (Download tok p (Inr r)) e =
     (fileBinary r = None \<and> e = TypeError ''ERR_INVALID_ARG_TYPE'')"
| "raises ev e = False"

text \<open>The events a run from \<open>s\<close> to \<open>s'\<close> added to the trace.\<close>

definition new_events :: "state \<Rightarrow> state \<Rightarrow> event list" where
  "new_events s s' = drop (length (trace s)) (trace s')"

text \<open>
  What the download loop does before an attempt that is not its last: token requests, and
  downloads rejected with status 401.
\<close>

fun is_retried :: "event \<Rightarrow> bool" where
  "is_retried (TokenRequest r) = True"
| "is_retried (Download tok p (Inl e)) = (status_of e = Some 401)"
| "is_retried ev = False"

text \<open>The metadata record the retrying module writes for the download \<open>r\<close> at time \<open>t\<close>.\<close>

definition new_meta :: "world \<Rightarrow> download_result \<Rightarrow> nat \<Rightarrow> cached_meta" where
  "new_meta w r t = \<lparr>rev_id = rev_id r, server_modified = server_modified r,
                      last_updated = Some (clock w t)\<rparr>"

text \<open>The same as \<open>raises\<close>, for \<open>services/dropboxService.js\<close>.\<close>

fun raises_simple :: "event \<Rightarrow> js_error \<Rightarrow> bool" where
  "raises_simple (TokenRequest (TokenFailure None message)) e = (e = FetchError message)"
| "raises_simple (TokenRequest (TokenFailure (Some (st, errorText)) message)) e =
     (e = Error (''Failed to refresh access token: '' @ errorText))"
| "raises_simple (TokenRequest (TokenNotJson body)) e = (e = FetchError ''invalid json response body'')"
| "raises_simple (GetAccount tok (Inl e')) e = (e = e')"
| "raises_simple (Download tok p (Inl e')) e = (e = e')"
| "raises_simple (Download tok p (Inr r)) e =
     (fileBinary r = None \<and> e = TypeError ''ERR_INVALID_ARG_TYPE'')"
| "raises_simple ev e = False"

text \<open>A download that returned content.\<close>

fun download_ok :: "event \<Rightarrow> bool" where
  "download_ok (Download tok p (Inr r)) = True"
| "download_ok ev = False"

text \<open>Events that are neither downloads nor writes.\<close>

fun is_quiet :: "event \<Rightarrow> bool" where
  "is_quiet (Download tok p r) = False"
| "is_quiet (WriteFile file d) = False"
| "is_quiet ev = True"

text \<open>
  Two metadata files agree: both are absent, both hold the same unparseable text, or both
  hold records with the same \<open>rev\<close> and \<open>server_modified\<close>.
\<close>

fun same_meta :: "file_data option \<Rightarrow> file_data option \<Rightarrow> bool" where
  "same_meta None None = True"
| "same_meta (Some (Json m)) (Some (Json m')) =
     (rev_id m = rev_id m' \<and> server_modified m = server_modified m')"
| "same_meta (Some (Binary b)) (Some (Binary b')) = (b = b')"
| "same_meta d d' = False"

text \<open>
  The outcome of the check of the cached copy when no call fails, from the content file,
  the metadata file and the remote revision.
\<close>

fun expected_check :: "file_data option \<Rightarrow> file_data option \<Rightarrow> string option \<Rightarrow> cache_check" where
  "expected_check None d remote = NotCached"
| "expected_check (Some v) None remote = NotCached"
| "expected_check (Some v) (Some (Binary b)) remote = CheckFailed (SyntaxError ''Unexpected token'')"
| "expected_check (Some v) (Some (Json m)) remote = (if remote = rev_id m then Fresh else Stale)"

text \<open>
  What a run does before the download that delivers content: token requests, metadata and
  account queries, and downloads rejected with status 401.
\<close>

fun is_preliminary :: "event \<Rightarrow> bool" where
  "is_preliminary (Download tok p (Inl e)) = (status_of e = Some 401)"
| "is_preliminary (Download tok p (Inr r)) = False"
| "is_preliminary (WriteFile file d) = False"
| "is_preliminary ev = True"

text \<open>
  The files on disk after the writes among the given events, from the files \<open>fs\<close>: with
  \<open>take n\<close> of the events of a run, the disk as it is after the first \<open>n\<close> events.
\<close>

fun apply_writes :: "(string \<rightharpoonup> file_data) \<Rightarrow> event list \<Rightarrow> (string \<rightharpoonup> file_data)" where
  "apply_writes fs [] = fs"
| "apply_writes fs (WriteFile file d # evs) = apply_writes (fs(file \<mapsto> d)) evs"
| "apply_writes fs (ev # evs) = apply_writes fs evs"

section \<open>Example worlds and states\<close>

text \<open>Concrete inputs, on which the theorems below are instantiated.\<close>

text \<open>A world in which every call succeeds and the remote file has revision \<open>rev1\<close>.\<close>

definition example_world :: world where
  "example_world =
     \<lparr>tmpdir = ''/tmp'',
      sha256_hex = (\<lambda>str. if str = ''/a'' then ''ca97'' else ''3e23''),
      token_endpoint = (\<lambda>t. TokenJson (Some ''tok1'')),
      api_filesGetMetadata = (\<lambda>t tok p. Inr \<lparr>rev_id = Some ''rev1'', server_modified = Some ''d1''\<rparr>),
      api_filesDownload = (\<lambda>t tok p. Inr \<lparr>rev_id = Some ''rev1'', server_modified = Some ''d1'',
                                            fileBinary = Some ''abc'', fileBlob = None\<rparr>),
      api_usersGetCurrentAccount = (\<lambda>t tok. Inr \<lparr>result_name_display_name = Some ''Ana''\<rparr>),
      clock = (\<lambda>t. ''T'')\<rparr>"

text \<open>Nothing held, nothing cached, nothing done yet.\<close>

definition cold_state :: state where
  "cold_state = \<lparr>dbxInstance = None, currentAccessToken = None, dbx = None,
                  files = Map.empty, trace = []\<rparr>"

text \<open>
  The path \<open>/a\<close> cached at revision \<open>rev1\<close> in the cache directories of both modules.
\<close>

definition cached_files :: "string \<rightharpoonup> file_data" where
  "cached_files =
     [''/tmp/dropbox_cache/ca97'' \<mapsto> Binary ''old'',
      ''/tmp/dropbox_cache/ca97.meta.json'' \<mapsto>
        Json \<lparr>rev_id = Some ''rev1'', server_modified = Some ''d1'', last_updated = Some ''T0''\<rparr>,
      ''/tmp/ijcvwabot_dropbox_cache/ca97'' \<mapsto> Binary ''old'',
      ''/tmp/ijcvwabot_dropbox_cache/ca97.meta.json'' \<mapsto>
        Json \<lparr>rev_id = Some ''rev1'', server_modified = Some ''d1'', last_updated = None\<rparr>]"

definition cached_state :: state where
  "cached_state = cold_state\<lparr>files := cached_files\<rparr>"

text \<open>The token endpoint answers 400.\<close>

definition world_token_rejected :: world where
  "world_token_rejected =
     example_world\<lparr>token_endpoint :=
       (\<lambda>t. TokenFailure (Some (400, ''invalid_grant'')) ''Request failed with status code 400'')\<rparr>"

text \<open>A client and the token \<open>tok0\<close> are held.\<close>

definition warm_state :: state where
  "warm_state = cold_state\<lparr>dbxInstance := Some (Dropbox (Some ''tok0'')),
                            currentAccessToken := Some ''tok0''\<rparr>"

text \<open>The remote path does not exist: the metadata query and the download answer 409.\<close>

definition world_not_found :: world where
  "world_not_found =
     example_world\<lparr>api_filesGetMetadata :=
                     (\<lambda>t tok p. Inl (DropboxResponseError 409 ''path/not_found/'')),
                   api_filesDownload :=
                     (\<lambda>t tok p. Inl (DropboxResponseError 409 ''path/not_found/''))\<rparr>"

text \<open>
  Every token but \<open>tok2\<close>, the one the token endpoint issues, is rejected with status 401;
  the remote file has revision \<open>rev2\<close>.
\<close>

definition world_expired_once :: world where
  "world_expired_once =
     example_world\<lparr>token_endpoint := (\<lambda>t. TokenJson (Some ''tok2'')),
                   api_filesGetMetadata :=
                     (\<lambda>t tok p. if tok = Some ''tok2''
                                then Inr \<lparr>rev_id = Some ''rev2'', server_modified = Some ''d2''\<rparr>
                                else Inl (DropboxResponseError 401 ''expired_access_token/'')),
                   api_filesDownload :=
                     (\<lambda>t tok p. if tok = Some ''tok2''
                                then Inr \<lparr>rev_id = Some ''rev2'', server_modified = Some ''d2'',
                                          fileBinary = Some ''xyz'', fileBlob = None\<rparr>
                                else Inl (DropboxResponseError 401 ''expired_access_token/''))\<rparr>"

definition cached_warm_state :: state where
  "cached_warm_state = warm_state\<lparr>files := cached_files\<rparr>"

text \<open>Every download is rejected with status 401.\<close>

definition world_always_expired :: world where
  "world_always_expired =
     example_world\<lparr>api_filesDownload :=
                     (\<lambda>t tok p. Inl (DropboxResponseError 401 ''expired_access_token/''))\<rparr>"

text \<open>Every download is rejected with status 401 and the token endpoint answers 400.\<close>

definition world_token_rejected_after :: world where
  "world_token_rejected_after =
     world_always_expired\<lparr>token_endpoint :=
       (\<lambda>t. TokenFailure (Some (400, ''invalid_grant'')) ''Request failed with status code 400'')\<rparr>"

text \<open>
  The remote file has revision \<open>rev2\<close>; the metadata query answers every token, but a
  download is answered only with \<open>tok2\<close>, the token the endpoint issues, and rejected with
  status 401 otherwise.
\<close>

definition world_revised :: world where
  "world_revised =
     example_world\<lparr>token_endpoint := (\<lambda>t. TokenJson (Some ''tok2'')),
                   api_filesGetMetadata :=
                     (\<lambda>t tok p. Inr \<lparr>rev_id = Some ''rev2'', server_modified = Some ''d2''\<rparr>),
                   api_filesDownload :=
                     (\<lambda>t tok p. if tok = Some ''tok2''
                                then Inr \<lparr>rev_id = Some ''rev2'', server_modified = Some ''d2'',
                                          fileBinary = Some ''xyz'', fileBlob = None\<rparr>
                                else Inl (DropboxResponseError 401 ''expired_access_token/''))\<rparr>"

section \<open>Basic facts\<close>

text \<open>The definitions to unfold when a run is evaluated on a concrete input.\<close>

lemmas model_defs = downloadFile_def checkCache_def readMeta_def getDropboxInstance_def
  refreshAccessToken_def filesGetMetadata_def filesDownload_def usersGetCurrentAccount_def
  writeFileSync_def tryDownload_def getCacheFilePath_def cacheDir_def hashString_def truthy_def
  getDropboxInstance_simple_def cacheDir_simple_def
  getCacheFilePath_simple_def checkCache_simple_def js_or_def tryDownload_simple_def
  downloadFile_simple_def

subsection \<open>The client\<close>

lemma getDropboxInstance_held:
  "dbxInstance s = Some c \<Longrightarrow> truthy (currentAccessToken s) \<Longrightarrow> getDropboxInstance w s = (s, Inr c)"
  by (simp add: getDropboxInstance_def)

lemma getDropboxInstance_cases:
  "getDropboxInstance w s =
     (if held s then (s, Inr (the (dbxInstance s)))
      else (case token_endpoint w (length (trace s)) of
              TokenJson t \<Rightarrow>
                (s\<lparr>trace := trace s @ [TokenRequest (TokenJson t)], currentAccessToken := t,
                   dbxInstance := Some (Dropbox t)\<rparr>, Inr (Dropbox t))
            | TokenNotJson b \<Rightarrow>
                (s\<lparr>trace := trace s @ [TokenRequest (TokenNotJson b)], currentAccessToken := None,
                   dbxInstance := Some (Dropbox None)\<rparr>, Inr (Dropbox None))
            | TokenFailure r m \<Rightarrow>
                (s\<lparr>trace := trace s @ [TokenRequest (TokenFailure r m)]\<rparr>,
                 Inl (Error ''No se pudo refrescar el token de acceso a Dropbox''))))"
  by (auto simp add: getDropboxInstance_def refreshAccessToken_def Let_def held_def
      split: option.splits token_response.splits)

lemma getDropboxInstance_files:
  "getDropboxInstance w s = (s1, r) \<Longrightarrow> files s1 = files s"
  by (auto simp add: getDropboxInstance_cases split: if_splits token_response.splits)

lemma getDropboxInstance_dbx:
  "getDropboxInstance w s = (s1, r) \<Longrightarrow> dbx s1 = dbx s"
  by (auto simp add: getDropboxInstance_cases split: if_splits token_response.splits)

lemma getDropboxInstance_Inr:
  "getDropboxInstance w s = (s1, Inr c) \<Longrightarrow> dbxInstance s1 = Some c"
  by (auto simp add: getDropboxInstance_cases held_def split: if_splits token_response.splits)

lemma getDropboxInstance_Inl:
  "getDropboxInstance w s = (s1, Inl e) \<Longrightarrow>
     dbxInstance s1 = dbxInstance s \<and> currentAccessToken s1 = currentAccessToken s \<and>
     e = Error ''No se pudo refrescar el token de acceso a Dropbox'' \<and>
     (\<exists>resp m. trace s1 = trace s @ [TokenRequest (TokenFailure resp m)])"
  by (auto simp add: getDropboxInstance_cases held_def split: if_splits token_response.splits)

lemma getDropboxInstance_trace:
  "getDropboxInstance w s = (s1, r) \<Longrightarrow>
     trace s1 = (if held s then trace s
                 else trace s @ [TokenRequest (token_endpoint w (length (trace s)))])"
  by (auto simp add: getDropboxInstance_cases split: if_splits token_response.splits)

subsection \<open>One attempt, and the loop\<close>

lemma tryDownload_cases:
  "tryDownload w s p =
     (case getDropboxInstance w s of
        (s1, Inl e) \<Rightarrow> (s1, Inl e)
      | (s1, Inr c) \<Rightarrow>
          (case api_filesDownload w (length (trace s1)) (accessToken c) p of
             Inl e \<Rightarrow> (s1\<lparr>trace := trace s1 @ [Download (accessToken c) p (Inl e)]\<rparr>, Inl e)
           | Inr r \<Rightarrow>
               (case fileBinary r of
                  None \<Rightarrow> (s1\<lparr>trace := trace s1 @ [Download (accessToken c) p (Inr r)]\<rparr>,
                           Inl (TypeError ''ERR_INVALID_ARG_TYPE''))
                | Some b \<Rightarrow>
                    (s1\<lparr>files := (files s1)
                            (getCacheFilePath w p \<mapsto> Binary b,
                             getCacheFilePath w p @ ''.meta.json'' \<mapsto>
                               Json \<lparr>rev_id = rev_id r, server_modified = server_modified r,
                                     last_updated = Some (clock w (length (trace s1) + 2))\<rparr>),
                         trace := trace s1 @
                           [Download (accessToken c) p (Inr r),
                            WriteFile (getCacheFilePath w p) (Binary b),
                            WriteFile (getCacheFilePath w p @ ''.meta.json'')
                              (Json \<lparr>rev_id = rev_id r, server_modified = server_modified r,
                                     last_updated = Some (clock w (length (trace s1) + 2))\<rparr>)]\<rparr>,
                     Inr (getCacheFilePath w p)))))"
  by (simp add: tryDownload_def filesDownload_def writeFileSync_def Let_def
      split: prod.splits sum.splits option.splits)

lemma tryDownload_Inl:
  assumes "tryDownload w s p = (s1, Inl e)"
  shows "files s1 = files s \<and> dbx s1 = dbx s \<and>
         (\<exists>evs. trace s1 = trace s @ evs \<and> evs \<noteq> [] \<and> raises (last evs) e \<and>
                (\<forall>ev \<in> set (butlast evs). is_token_request ev) \<and>
                (status_of e = Some 401 \<longrightarrow>
                   (\<exists>c. dbxInstance s1 = Some c \<and> last evs = Download (accessToken c) p (Inl e))))"
proof (cases "getDropboxInstance w s")
  case (Pair s0 r0)
  note g = getDropboxInstance_files [OF Pair] getDropboxInstance_dbx [OF Pair]
    getDropboxInstance_trace [OF Pair]
  show ?thesis
  proof (cases r0)
    case (Inl e0)
    with Pair assms have eq: "s1 = s0" "e = e0" by (simp_all add: tryDownload_cases)
    from getDropboxInstance_Inl [OF Pair [unfolded Inl]] g eq show ?thesis
      by auto
  next
    case (Inr c)
    from getDropboxInstance_Inr [OF Pair [unfolded Inr]] have c: "dbxInstance s0 = Some c" .
    from Pair Inr assms g c show ?thesis
      by (auto simp add: tryDownload_cases split: sum.splits option.splits if_splits)
  qed
qed

lemma tryDownload_Inr:
  assumes "tryDownload w s p = (s1, Inr x)"
  shows "x = getCacheFilePath w p \<and> dbx s1 = dbx s \<and>
         (\<exists>evs c r b. trace s1 = trace s @ evs @
              [Download (accessToken c) p (Inr r), WriteFile x (Binary b),
               WriteFile (x @ ''.meta.json'') (Json (new_meta w r (length (trace s @ evs) + 2)))] \<and>
            (\<forall>ev \<in> set evs. is_token_request ev) \<and>
            fileBinary r = Some b \<and> dbxInstance s1 = Some c \<and>
            api_filesDownload w (length (trace s @ evs)) (accessToken c) p = Inr r \<and>
            files s1 = (files s)(x \<mapsto> Binary b,
              x @ ''.meta.json'' \<mapsto> Json (new_meta w r (length (trace s @ evs) + 2))))"
proof (cases "getDropboxInstance w s")
  case (Pair s0 r0)
  note g = getDropboxInstance_files [OF Pair] getDropboxInstance_dbx [OF Pair]
    getDropboxInstance_trace [OF Pair]
  show ?thesis
  proof (cases r0)
    case (Inl e0)
    with Pair assms show ?thesis by (simp add: tryDownload_cases)
  next
    case (Inr c)
    from getDropboxInstance_Inr [OF Pair [unfolded Inr]] have c: "dbxInstance s0 = Some c" .
    show ?thesis
    proof (cases "held s")
      case True
      with Pair Inr assms g c show ?thesis
        by (auto simp add: tryDownload_cases new_meta_def split: sum.splits option.splits
            intro!: exI [of _ "[]"])
    next
      case False
      with Pair Inr assms g c show ?thesis
        by (auto simp add: tryDownload_cases new_meta_def split: sum.splits option.splits
            intro!: exI [of _ "[TokenRequest (token_endpoint w (length (trace s)))]"])
    qed
  qed
qed

lemma downloadLoop_step:
  "attempt \<le> maxRetries \<Longrightarrow> tryDownload w s p = (s1, r) \<Longrightarrow>
   downloadLoop w s p attempt maxRetries lastError =
     (case r of
        Inr localPath \<Rightarrow> (s1, Inr localPath)
      | Inl error \<Rightarrow>
          if status_of error = Some 401 \<and> attempt < maxRetries
          then downloadLoop w (s1\<lparr>dbxInstance := None, currentAccessToken := None\<rparr>) p
                 (attempt + 1) maxRetries (Some error)
          else (s1, Inl error))"
  by (subst downloadLoop.simps) (simp split: sum.splits)

lemma downloadLoop_exit:
  "\<not> attempt \<le> maxRetries \<Longrightarrow>
   downloadLoop w s p attempt maxRetries lastError =
     (s, Inl (case lastError of Some e \<Rightarrow> e
              | None \<Rightarrow> Error ''Error desconocido al descargar archivo''))"
  by (subst downloadLoop.simps) simp

lemma downloadLoop_Inl:
  "downloadLoop w s p attempt maxRetries lastError = (s', Inl e) \<Longrightarrow> attempt \<le> maxRetries \<Longrightarrow>
   files s' = files s \<and> dbx s' = dbx s \<and>
   (\<exists>evs. trace s' = trace s @ evs \<and> evs \<noteq> [] \<and> raises (last evs) e \<and>
          (\<forall>ev \<in> set (butlast evs). is_retried ev) \<and>
          (status_of e = Some 401 \<longrightarrow> attempt + int (length (filter is_download evs)) = maxRetries + 1 \<and> 
             (\<exists>c. dbxInstance s' = Some c \<and> last evs = Download (accessToken c) p (Inl e))))"
proof (induction w s p attempt maxRetries lastError rule: downloadLoop.induct)
  case (1 w s p attempt maxRetries lastError)
  obtain s1 r where t: "tryDownload w s p = (s1, r)" by (cases "tryDownload w s p")
  note step = downloadLoop_step [OF "1.prems"(2) t, of lastError]
  show ?case
  proof (cases r)
    case (Inr x)
    with step "1.prems"(1) show ?thesis by simp
  next
    case (Inl error)
    note tI = tryDownload_Inl [OF t [unfolded Inl]]
    then obtain evs1 where e1: "trace s1 = trace s @ evs1" "evs1 \<noteq> []" "raises (last evs1) error"
      "\<forall>ev \<in> set (butlast evs1). is_token_request ev"
      "status_of error = Some 401 \<longrightarrow>
         (\<exists>c. dbxInstance s1 = Some c \<and> last evs1 = Download (accessToken c) p (Inl error))"
      by blast
    have tok: "is_retried ev" if "is_token_request ev" for ev
      using that by (cases ev) simp_all
    have dl: "\<not> is_download ev" if "is_token_request ev" for ev
      using that by (cases ev) simp_all
    have cnt: "filter is_download (butlast evs1) = []"
      using e1(4) dl by (auto simp add: filter_empty_conv)
    show ?thesis
    proof (cases "status_of error = Some 401 \<and> attempt < maxRetries")
      case False
      with step Inl "1.prems"(1) have eq: "s' = s1" "e = error" by simp_all
      have "status_of e = Some 401 \<Longrightarrow> attempt = maxRetries"
        using False eq "1.prems"(2) by simp
      moreover have "status_of e = Some 401 \<Longrightarrow> length (filter is_download evs1) = 1"
        using e1(5) e1(2) cnt eq
        by (metis (no_types, lifting) append_butlast_last_id filter.simps(1,2) filter_append
            is_download.simps(1) length_Cons list.size(3) self_append_conv2 One_nat_def)
      ultimately show ?thesis
        using tI e1 eq tok by (intro conjI exI [of _ evs1]) auto
    next
      case True
      let ?s2 = "s1\<lparr>dbxInstance := None, currentAccessToken := None\<rparr>"
      from step Inl True "1.prems"(1)
      have rec: "downloadLoop w ?s2 p (attempt + 1) maxRetries (Some error) = (s', Inl e)"
        by simp
      from True have le: "attempt + 1 \<le> maxRetries" by simp
      from "1.IH" [OF "1.prems"(2) t [symmetric] Inl True rec le]
      obtain evs2 where e2: "files s' = files ?s2" "dbx s' = dbx ?s2"
        "trace s' = trace ?s2 @ evs2" "evs2 \<noteq> []" "raises (last evs2) e"
        "\<forall>ev \<in> set (butlast evs2). is_retried ev"
        "status_of e = Some 401 \<longrightarrow> attempt + 1 + int (length (filter is_download evs2)) = maxRetries + 1 \<and> 
           (\<exists>c. dbxInstance s' = Some c \<and> last evs2 = Download (accessToken c) p (Inl e))"
        by auto
      from True e1(5) obtain c1 where l1: "last evs1 = Download (accessToken c1) p (Inl error)"
        by blast
      have evs1: "evs1 = butlast evs1 @ [Download (accessToken c1) p (Inl error)]"
        using e1(2) l1 by (metis append_butlast_last_id)
      have r1: "\<forall>ev \<in> set evs1. is_retried ev"
        using e1(4) tok True by (subst evs1) auto
      have c1: "length (filter is_download evs1) = 1"
        by (subst evs1) (simp add: cnt)
      have bl: "butlast (evs1 @ evs2) = evs1 @ butlast evs2"
        using e2(4) by (simp add: butlast_append)
      show ?thesis
        using tI e2 e1(1) r1 c1 bl
        by (intro conjI exI [of _ "evs1 @ evs2"]) auto
    qed
  qed
qed

lemma downloadLoop_Inr:
  "downloadLoop w s p attempt maxRetries lastError = (s', Inr x) \<Longrightarrow>
   x = getCacheFilePath w p \<and> dbx s' = dbx s \<and>
   (\<exists>evs c r b. trace s' = trace s @ evs @
        [Download (accessToken c) p (Inr r), WriteFile x (Binary b),
         WriteFile (x @ ''.meta.json'') (Json (new_meta w r (length (trace s @ evs) + 2)))] \<and>
      (\<forall>ev \<in> set evs. is_retried ev) \<and>
      fileBinary r = Some b \<and> dbxInstance s' = Some c \<and>
      api_filesDownload w (length (trace s @ evs)) (accessToken c) p = Inr r \<and>
      files s' = (files s)(x \<mapsto> Binary b,
        x @ ''.meta.json'' \<mapsto> Json (new_meta w r (length (trace s @ evs) + 2))))"
proof (induction w s p attempt maxRetries lastError rule: downloadLoop.induct)
  case (1 w s p attempt maxRetries lastError)
  have le: "attempt \<le> maxRetries"
    using "1.prems" downloadLoop_exit [of attempt maxRetries w s p lastError] by auto
  obtain s1 r where t: "tryDownload w s p = (s1, r)" by (cases "tryDownload w s p")
  note step = downloadLoop_step [OF le t, of lastError]
  have tok: "is_retried ev" if "is_token_request ev" for ev
    using that by (cases ev) simp_all
  show ?case
  proof (cases r)
    case (Inr y)
    with step "1.prems" have eq: "s' = s1" "x = y" by simp_all
    from tryDownload_Inr [OF t [unfolded Inr]] eq tok show ?thesis
      by (elim conjE exE) (intro conjI exI, auto)
  next
    case (Inl error)
    with step "1.prems" have True: "status_of error = Some 401 \<and> attempt < maxRetries"
      by (auto split: if_splits)
    let ?s2 = "s1\<lparr>dbxInstance := None, currentAccessToken := None\<rparr>"
    from step Inl True "1.prems"
    have rec: "downloadLoop w ?s2 p (attempt + 1) maxRetries (Some error) = (s', Inr x)"
      by simp
    note tI = tryDownload_Inl [OF t [unfolded Inl]]
    then obtain evs1 where e1: "trace s1 = trace s @ evs1" "evs1 \<noteq> []"
      "\<forall>ev \<in> set (butlast evs1). is_token_request ev"
      "status_of error = Some 401 \<longrightarrow>
         (\<exists>c. dbxInstance s1 = Some c \<and> last evs1 = Download (accessToken c) p (Inl error))"
      by blast
    from True e1(4) obtain c1 where l1: "last evs1 = Download (accessToken c1) p (Inl error)"
      by blast
    have evs1: "evs1 = butlast evs1 @ [Download (accessToken c1) p (Inl error)]"
      using e1(2) l1 by (metis append_butlast_last_id)
    have r1: "\<forall>ev \<in> set evs1. is_retried ev"
      using e1(3) tok True by (subst evs1) auto
    from "1.IH" [OF le t [symmetric] Inl True rec]
    obtain evs c r b where e2: "x = getCacheFilePath w p" "dbx s' = dbx ?s2"
      "trace s' = trace ?s2 @ evs @
        [Download (accessToken c) p (Inr r), WriteFile x (Binary b),
         WriteFile (x @ ''.meta.json'') (Json (new_meta w r (length (trace ?s2 @ evs) + 2)))]"
      "\<forall>ev \<in> set evs. is_retried ev" "fileBinary r = Some b" "dbxInstance s' = Some c"
      "api_filesDownload w (length (trace ?s2 @ evs)) (accessToken c) p = Inr r"
      "files s' = (files ?s2)(x \<mapsto> Binary b,
        x @ ''.meta.json'' \<mapsto> Json (new_meta w r (length (trace ?s2 @ evs) + 2)))"
      by blast
    show ?thesis
      using tI e2 e1(1) r1
      by (intro conjI exI [of _ "evs1 @ evs"] exI [of _ c] exI [of _ r] exI [of _ b]) auto
  qed
qed

subsection \<open>Events, the check of the cached copy and the module without retry\<close>

lemma is_quiet_simps2 [simp]:
  "is_quiet ev \<Longrightarrow> \<not> is_download ev" "is_quiet ev \<Longrightarrow> \<not> is_write ev"
  "is_quiet ev \<Longrightarrow> \<not> download_ok ev"
  by (cases ev; simp)+

lemma is_retried_simps2 [simp]:
  "is_retried ev \<Longrightarrow> \<not> is_write ev" "is_retried ev \<Longrightarrow> \<not> download_ok ev"
  by (cases ev rule: is_retried.cases; simp)+

lemma filter_none: "\<forall>x \<in> set xs. \<not> P x \<Longrightarrow> filter P xs = []"
  by (simp add: filter_empty_conv)

lemma getDropboxInstance_quiet:
  "getDropboxInstance w s = (s1, r) \<Longrightarrow> \<exists>evs. trace s1 = trace s @ evs \<and> (\<forall>ev \<in> set evs. is_quiet ev)"
  by (auto simp add: getDropboxInstance_cases split: if_splits token_response.splits)

lemma getDropboxInstance_simple_effect:
  "getDropboxInstance_simple w s = (s1, r) \<Longrightarrow>
     files s1 = files s \<and> dbxInstance s1 = dbxInstance s \<and>
     currentAccessToken s1 = currentAccessToken s \<and>
     (\<exists>evs. trace s1 = trace s @ evs \<and> (\<forall>ev \<in> set evs. is_quiet ev) \<and>
        (case r of Inl e \<Rightarrow> evs \<noteq> [] \<and> raises_simple (last evs) e | Inr c \<Rightarrow> dbx s1 = Some c))"
  by (auto simp add: getDropboxInstance_simple_def usersGetCurrentAccount_def Let_def
      split: option.splits token_response.splits prod.splits sum.splits)

lemma checkCache_effect:
  "checkCache w s p = (s1, k) \<Longrightarrow>
     files s1 = files s \<and> dbx s1 = dbx s \<and>
     (\<exists>evs. trace s1 = trace s @ evs \<and> (\<forall>ev \<in> set evs. is_quiet ev))"
proof -
  assume a: "checkCache w s p = (s1, k)"
  obtain s0 r0 where g: "getDropboxInstance w s = (s0, r0)" by (cases "getDropboxInstance w s")
  from getDropboxInstance_quiet [OF g] getDropboxInstance_files [OF g] getDropboxInstance_dbx [OF g]
  obtain evs where e: "trace s0 = trace s @ evs" "\<forall>ev \<in> set evs. is_quiet ev"
    "files s0 = files s" "dbx s0 = dbx s"
    by blast
  from a g e show ?thesis
    by (auto simp add: checkCache_def filesGetMetadata_def Let_def
        split: if_splits sum.splits prod.splits)
qed

lemma checkCache_simple_effect:
  "checkCache_simple w s p = (s1, k) \<Longrightarrow>
     files s1 = files s \<and> dbxInstance s1 = dbxInstance s \<and>
     currentAccessToken s1 = currentAccessToken s \<and>
     (\<exists>evs. trace s1 = trace s @ evs \<and> (\<forall>ev \<in> set evs. is_quiet ev))"
proof -
  assume a: "checkCache_simple w s p = (s1, k)"
  obtain s0 r0 where g: "getDropboxInstance_simple w s = (s0, r0)"
    by (cases "getDropboxInstance_simple w s")
  from getDropboxInstance_simple_effect [OF g]
  obtain evs where e: "trace s0 = trace s @ evs" "\<forall>ev \<in> set evs. is_quiet ev"
    "files s0 = files s" "dbxInstance s0 = dbxInstance s"
    "currentAccessToken s0 = currentAccessToken s"
    by blast
  from a g e show ?thesis
    by (auto simp add: checkCache_simple_def filesGetMetadata_def Let_def
        split: if_splits sum.splits prod.splits)
qed

lemma tryDownload_simple_cases:
  "tryDownload_simple w s p =
     (case getDropboxInstance_simple w s of
        (s1, Inl e) \<Rightarrow> (s1, Inl e)
      | (s1, Inr c) \<Rightarrow>
          (case api_filesDownload w (length (trace s1)) (accessToken c) p of
             Inl e \<Rightarrow> (s1\<lparr>trace := trace s1 @ [Download (accessToken c) p (Inl e)]\<rparr>, Inl e)
           | Inr r \<Rightarrow>
               (case fileBinary r of
                  None \<Rightarrow> (s1\<lparr>trace := trace s1 @ [Download (accessToken c) p (Inr r)]\<rparr>,
                           Inl (TypeError ''ERR_INVALID_ARG_TYPE''))
                | Some b \<Rightarrow>
                    (s1\<lparr>files := (files s1)
                            (getCacheFilePath_simple w p \<mapsto> Binary b,
                             getCacheFilePath_simple w p @ ''.meta.json'' \<mapsto>
                               Json \<lparr>rev_id = rev_id r, server_modified = server_modified r,
                                     last_updated = None\<rparr>),
                         trace := trace s1 @
                           [Download (accessToken c) p (Inr r),
                            WriteFile (getCacheFilePath_simple w p) (Binary b),
                            WriteFile (getCacheFilePath_simple w p @ ''.meta.json'')
                              (Json \<lparr>rev_id = rev_id r, server_modified = server_modified r,
                                     last_updated = None\<rparr>)]\<rparr>,
                     Inr (getCacheFilePath_simple w p)))))"
proof (cases "getDropboxInstance_simple w s")
  case (Pair s1 r1)
  show ?thesis
  proof (cases r1)
    case (Inl e)
    with Pair show ?thesis by (simp add: tryDownload_simple_def Let_def)
  next
    case (Inr c)
    show ?thesis
    proof (cases "api_filesDownload w (length (trace s1)) (accessToken c) p")
      case (Inl e)
      with Pair \<open>r1 = Inr c\<close> show ?thesis
        by (simp add: tryDownload_simple_def filesDownload_def Let_def)
    next
      case (Inr r)
      with Pair \<open>r1 = Inr c\<close> show ?thesis
        by (cases "fileBinary r"; cases "fileBlob r")
          (simp_all add: tryDownload_simple_def filesDownload_def writeFileSync_def js_or_def
            Let_def)
    qed
  qed
qed

lemma tryDownload_simple_blob_rejected:
  "getDropboxInstance_simple w s = (s1, Inr c) \<Longrightarrow>
   api_filesDownload w (length (trace s1)) (accessToken c) p = Inr r \<Longrightarrow>
   fileBinary r = None \<Longrightarrow>
   tryDownload_simple w s p =
     (s1\<lparr>trace := trace s1 @ [Download (accessToken c) p (Inr r)]\<rparr>,
      Inl (TypeError ''ERR_INVALID_ARG_TYPE''))"
  by (simp add: tryDownload_simple_cases)

lemma tryDownload_simple_Inl:
  assumes "tryDownload_simple w s p = (s1, Inl e)"
  shows "files s1 = files s \<and>
         (\<exists>evs. trace s1 = trace s @ evs \<and> evs \<noteq> [] \<and> raises_simple (last evs) e)"
proof -
  obtain s0 r0 where g: "getDropboxInstance_simple w s = (s0, r0)"
    by (cases "getDropboxInstance_simple w s")
  from getDropboxInstance_simple_effect [OF g]
  obtain evs where e: "trace s0 = trace s @ evs" "files s0 = files s"
    "case r0 of Inl e \<Rightarrow> evs \<noteq> [] \<and> raises_simple (last evs) e | Inr c \<Rightarrow> dbx s0 = Some c"
    by blast
  from assms g e show ?thesis
    by (auto simp add: tryDownload_simple_cases split: sum.splits option.splits)
qed

lemma tryDownload_simple_Inr:
  assumes "tryDownload_simple w s p = (s1, Inr x)"
  shows "x = getCacheFilePath_simple w p \<and>
         (\<exists>evs c r b. trace s1 = trace s @ evs @
              [Download (accessToken c) p (Inr r), WriteFile x (Binary b),
               WriteFile (x @ ''.meta.json'')
                 (Json \<lparr>rev_id = rev_id r, server_modified = server_modified r,
                        last_updated = None\<rparr>)] \<and>
            (\<forall>ev \<in> set evs. is_quiet ev) \<and>
            fileBinary r = Some b \<and>
            api_filesDownload w (length (trace s @ evs)) (accessToken c) p = Inr r \<and>
            files s1 = (files s)(x \<mapsto> Binary b,
              x @ ''.meta.json'' \<mapsto>
                Json \<lparr>rev_id = rev_id r, server_modified = server_modified r,
                       last_updated = None\<rparr>))"
proof -
  obtain s0 r0 where g: "getDropboxInstance_simple w s = (s0, r0)"
    by (cases "getDropboxInstance_simple w s")
  from getDropboxInstance_simple_effect [OF g]
  obtain evs where e: "trace s0 = trace s @ evs" "files s0 = files s"
    "\<forall>ev \<in> set evs. is_quiet ev"
    by blast
  from assms g e show ?thesis
    by (auto simp add: tryDownload_simple_cases split: sum.splits option.splits
        intro!: exI [of _ evs])
qed

lemma tryDownload_dbxInstance:
  "tryDownload w s p = (s1, r) \<Longrightarrow> dbxInstance s1 = None \<Longrightarrow> dbxInstance s = None"
  by (cases "held s")
     (auto simp add: tryDownload_cases getDropboxInstance_cases held_def
      split: sum.splits option.splits token_response.splits)

lemma downloadLoop_trace:
  "downloadLoop w s p attempt maxRetries lastError = (s', r) \<Longrightarrow> \<exists>evs. trace s' = trace s @ evs"
proof (cases "attempt \<le> maxRetries")
  case False
  assume "downloadLoop w s p attempt maxRetries lastError = (s', r)"
  with False show ?thesis by (simp add: downloadLoop_exit)
next
  case True
  assume a: "downloadLoop w s p attempt maxRetries lastError = (s', r)"
  show ?thesis
  proof (cases r)
    case (Inl e)
    from downloadLoop_Inl [OF a [unfolded Inl] True] show ?thesis by blast
  next
    case (Inr x)
    from downloadLoop_Inr [OF a [unfolded Inr]] show ?thesis by blast
  qed
qed

section \<open>The claims\<close>

text \<open>
  Claim C1. When the cached content file and its metadata sidecar exist, the metadata
  parses, a client is obtained and the remote metadata query answers with the cached
  revision, \<open>downloadFile\<close> returns the cached local path, calls \<open>filesDownload\<close> zero
  times and writes no file: the state after the call is the state after the metadata
  query. This holds for \<open>downloadFile\<close> of both modules.
\<close>

theorem cache_hit_short_circuits:
  "(files s (getCacheFilePath w p) \<noteq> None \<and>
    readMeta s (getCacheFilePath w p @ ''.meta.json'') = Inr cachedMeta \<and>
    getDropboxInstance w s = (s1, Inr c) \<and>
    api_filesGetMetadata w (length (trace s1)) (accessToken c) p = Inr currentMeta \<and>
    rev_id currentMeta = rev_id cachedMeta \<longrightarrow>
      downloadFile w s p maxRetries =
        (s1\<lparr>trace := trace s1 @ [GetMetadata (accessToken c) p (Inr currentMeta)]\<rparr>,
         Inr (getCacheFilePath w p)) \<and>
      files (fst (downloadFile w s p maxRetries)) = files s \<and>
      filter is_download (new_events s (fst (downloadFile w s p maxRetries))) = [] \<and>
      filter is_write (new_events s (fst (downloadFile w s p maxRetries))) = []) \<and>
   (files s (getCacheFilePath_simple w p) \<noteq> None \<and>
    readMeta s (getCacheFilePath_simple w p @ ''.meta.json'') = Inr cachedMeta \<and>
    getDropboxInstance_simple w s = (s1, Inr c) \<and>
    api_filesGetMetadata w (length (trace s1)) (accessToken c) p = Inr currentMeta \<and>
    rev_id currentMeta = rev_id cachedMeta \<longrightarrow>
      downloadFile_simple w s p =
        (s1\<lparr>trace := trace s1 @ [GetMetadata (accessToken c) p (Inr currentMeta)]\<rparr>,
         Inr (getCacheFilePath_simple w p)) \<and>
      files (fst (downloadFile_simple w s p)) = files s \<and>
      filter is_download (new_events s (fst (downloadFile_simple w s p))) = [] \<and>
      filter is_write (new_events s (fst (downloadFile_simple w s p))) = [])"
proof (intro conjI impI)
  assume a: "files s (getCacheFilePath w p) \<noteq> None \<and>
    readMeta s (getCacheFilePath w p @ ''.meta.json'') = Inr cachedMeta \<and>
    getDropboxInstance w s = (s1, Inr c) \<and>
    api_filesGetMetadata w (length (trace s1)) (accessToken c) p = Inr currentMeta \<and>
    rev_id currentMeta = rev_id cachedMeta"
  then have m: "files s (getCacheFilePath w p @ ''.meta.json'') \<noteq> None"
    by (auto simp add: readMeta_def split: option.splits)
  from a have g: "getDropboxInstance w s = (s1, Inr c)" by simp
  from getDropboxInstance_quiet [OF g] obtain evs where
    e: "trace s1 = trace s @ evs" "\<forall>ev \<in> set evs. is_quiet ev" by blast
  show r: "downloadFile w s p maxRetries =
        (s1\<lparr>trace := trace s1 @ [GetMetadata (accessToken c) p (Inr currentMeta)]\<rparr>,
         Inr (getCacheFilePath w p))"
    using a m by (simp add: downloadFile_def checkCache_def filesGetMetadata_def Let_def)
  show "files (fst (downloadFile w s p maxRetries)) = files s"
    using getDropboxInstance_files [OF g] by (simp add: r)
  show "filter is_download (new_events s (fst (downloadFile w s p maxRetries))) = []"
    using e by (simp add: r new_events_def filter_none)
  show "filter is_write (new_events s (fst (downloadFile w s p maxRetries))) = []"
    using e by (simp add: r new_events_def filter_none)
next
  assume a: "files s (getCacheFilePath_simple w p) \<noteq> None \<and>
    readMeta s (getCacheFilePath_simple w p @ ''.meta.json'') = Inr cachedMeta \<and>
    getDropboxInstance_simple w s = (s1, Inr c) \<and>
    api_filesGetMetadata w (length (trace s1)) (accessToken c) p = Inr currentMeta \<and>
    rev_id currentMeta = rev_id cachedMeta"
  then have m: "files s (getCacheFilePath_simple w p @ ''.meta.json'') \<noteq> None"
    by (auto simp add: readMeta_def split: option.splits)
  from a have g: "getDropboxInstance_simple w s = (s1, Inr c)" by simp
  from getDropboxInstance_simple_effect [OF g] obtain evs where
    e: "trace s1 = trace s @ evs" "\<forall>ev \<in> set evs. is_quiet ev" "files s1 = files s" by blast
  show r: "downloadFile_simple w s p =
        (s1\<lparr>trace := trace s1 @ [GetMetadata (accessToken c) p (Inr currentMeta)]\<rparr>,
         Inr (getCacheFilePath_simple w p))"
    using a m
    by (simp add: downloadFile_simple_def checkCache_simple_def filesGetMetadata_def Let_def)
  show "files (fst (downloadFile_simple w s p)) = files s"
    using e by (simp add: r)
  show "filter is_download (new_events s (fst (downloadFile_simple w s p))) = []"
    using e by (simp add: r new_events_def filter_none)
  show "filter is_write (new_events s (fst (downloadFile_simple w s p))) = []"
    using e by (simp add: r new_events_def filter_none)
qed

theorem cache_hit_short_circuits_witness:
  "downloadFile example_world cached_state ''/a'' 3 =
     (cached_state\<lparr>dbxInstance := Some (Dropbox (Some ''tok1'')),
                   currentAccessToken := Some ''tok1'',
                   trace := [TokenRequest (TokenJson (Some ''tok1'')),
                             GetMetadata (Some ''tok1'') ''/a''
                               (Inr \<lparr>rev_id = Some ''rev1'', server_modified = Some ''d1''\<rparr>)]\<rparr>,
      Inr ''/tmp/dropbox_cache/ca97'') \<and>
   files (fst (downloadFile example_world cached_state ''/a'' 3)) = cached_files \<and>
   filter is_download (new_events cached_state
      (fst (downloadFile example_world cached_state ''/a'' 3))) = [] \<and>
   filter is_write (new_events cached_state
      (fst (downloadFile example_world cached_state ''/a'' 3))) = [] \<and>
   downloadFile_simple example_world cached_state ''/a'' =
     (cached_state\<lparr>dbx := Some (Dropbox (Some ''tok1'')),
                   trace := [TokenRequest (TokenJson (Some ''tok1'')),
                             GetAccount (Some ''tok1'')
                               (Inr \<lparr>result_name_display_name = Some ''Ana''\<rparr>),
                             GetMetadata (Some ''tok1'') ''/a''
                               (Inr \<lparr>rev_id = Some ''rev1'', server_modified = Some ''d1''\<rparr>)]\<rparr>,
      Inr ''/tmp/ijcvwabot_dropbox_cache/ca97'') \<and>
   files (fst (downloadFile_simple example_world cached_state ''/a'')) = cached_files \<and>
   filter is_download (new_events cached_state
      (fst (downloadFile_simple example_world cached_state ''/a''))) = [] \<and>
   filter is_write (new_events cached_state
      (fst (downloadFile_simple example_world cached_state ''/a''))) = []"
proof -
  let ?m = "\<lparr>rev_id = Some ''rev1'', server_modified = Some ''d1''\<rparr>"
  have h1: "files cached_state (getCacheFilePath example_world ''/a'') \<noteq> None \<and>
    readMeta cached_state (getCacheFilePath example_world ''/a'' @ ''.meta.json'') =
      Inr \<lparr>rev_id = Some ''rev1'', server_modified = Some ''d1'', last_updated = Some ''T0''\<rparr> \<and>
    getDropboxInstance example_world cached_state =
      (cached_state\<lparr>dbxInstance := Some (Dropbox (Some ''tok1'')),
                    currentAccessToken := Some ''tok1'',
                    trace := [TokenRequest (TokenJson (Some ''tok1''))]\<rparr>,
       Inr (Dropbox (Some ''tok1''))) \<and>
    api_filesGetMetadata example_world
      (length (trace (cached_state\<lparr>dbxInstance := Some (Dropbox (Some ''tok1'')),
                    currentAccessToken := Some ''tok1'',
                    trace := [TokenRequest (TokenJson (Some ''tok1''))]\<rparr>)))
      (accessToken (Dropbox (Some ''tok1''))) ''/a'' = Inr ?m \<and>
    rev_id ?m = rev_id \<lparr>rev_id = Some ''rev1'', server_modified = Some ''d1'',
                         last_updated = Some ''T0''\<rparr>"
    by (simp add: model_defs example_world_def cold_state_def cached_files_def cached_state_def Let_def)
  have h2: "files cached_state (getCacheFilePath_simple example_world ''/a'') \<noteq> None \<and>
    readMeta cached_state (getCacheFilePath_simple example_world ''/a'' @ ''.meta.json'') =
      Inr \<lparr>rev_id = Some ''rev1'', server_modified = Some ''d1'', last_updated = None\<rparr> \<and>
    getDropboxInstance_simple example_world cached_state =
      (cached_state\<lparr>dbx := Some (Dropbox (Some ''tok1'')),
                    trace := [TokenRequest (TokenJson (Some ''tok1'')),
                              GetAccount (Some ''tok1'')
                               (Inr \<lparr>result_name_display_name = Some ''Ana''\<rparr>)]\<rparr>,
       Inr (Dropbox (Some ''tok1''))) \<and>
    api_filesGetMetadata example_world
      (length (trace (cached_state\<lparr>dbx := Some (Dropbox (Some ''tok1'')),
                    trace := [TokenRequest (TokenJson (Some ''tok1'')),
                              GetAccount (Some ''tok1'')
                               (Inr \<lparr>result_name_display_name = Some ''Ana''\<rparr>)]\<rparr>)))
      (accessToken (Dropbox (Some ''tok1''))) ''/a'' = Inr ?m \<and>
    rev_id ?m = rev_id \<lparr>rev_id = Some ''rev1'', server_modified = Some ''d1'',
                         last_updated = None\<rparr>"
    by (simp add: model_defs example_world_def cold_state_def cached_files_def cached_state_def Let_def)
  have p1: "getCacheFilePath example_world ''/a'' = ''/tmp/dropbox_cache/ca97''"
    by (simp add: getCacheFilePath_def cacheDir_def hashString_def example_world_def)
  have p2: "getCacheFilePath_simple example_world ''/a'' = ''/tmp/ijcvwabot_dropbox_cache/ca97''"
    by (simp add: getCacheFilePath_simple_def cacheDir_simple_def hashString_def
        example_world_def)
  have f: "files cached_state = cached_files"
    by (simp add: cached_state_def)
  note t = cache_hit_short_circuits [of cached_state example_world "''/a''"]
  have tr: "trace cached_state = []"
    by (simp add: cached_state_def cold_state_def)
  from t [THEN conjunct1, rule_format, OF h1, of 3] t [THEN conjunct2, rule_format, OF h2]
  show ?thesis
    by (simp add: p1 p2 f tr new_events_def)
qed

subsection \<open>Claim C2: a failed check of the cached copy is never raised\<close>

text \<open>
  Claim C2. When both cached files exist and the check of the cached copy fails, whatever
  the reason (the metadata file does not parse, no client can be obtained, the metadata
  query fails), \<open>downloadFile\<close> goes on with the download: its result is the result of the
  download loop run from the state the check left (of the download block, in
  \<open>services/dropboxService.js\<close>). An error it raises is then the error raised by the last
  call made after the check (or, when \<open>maxRetries < 1\<close> and the loop makes no attempt, the
  loop's own \<open>Error\<close>); the error of the check is dropped.
\<close>

theorem failed_check_falls_through:
  "(files s (getCacheFilePath w p) \<noteq> None \<and>
    files s (getCacheFilePath w p @ ''.meta.json'') \<noteq> None \<and>
    (readMeta s (getCacheFilePath w p @ ''.meta.json'') = Inl e \<and> s1 = s \<or>
     readMeta s (getCacheFilePath w p @ ''.meta.json'') = Inr m \<and>
       getDropboxInstance w s = (s1, Inl e) \<or>
     readMeta s (getCacheFilePath w p @ ''.meta.json'') = Inr m \<and>
       getDropboxInstance w s = (s0, Inr c) \<and> filesGetMetadata w s0 c p = (s1, Inl e)) \<longrightarrow>
      checkCache w s p = (s1, CheckFailed e) \<and>
      downloadFile w s p maxRetries = downloadLoop w s1 p 1 maxRetries None \<and>
      (\<forall>s' e'. downloadFile w s p maxRetries = (s', Inl e') \<longrightarrow>
         (if 1 \<le> maxRetries
          then \<exists>evs. trace s' = trace s1 @ evs \<and> evs \<noteq> [] \<and> raises (last evs) e'
          else s' = s1 \<and> e' = Error ''Error desconocido al descargar archivo''))) \<and>
   (files s (getCacheFilePath_simple w p) \<noteq> None \<and>
    files s (getCacheFilePath_simple w p @ ''.meta.json'') \<noteq> None \<and>
    (readMeta s (getCacheFilePath_simple w p @ ''.meta.json'') = Inl e \<and> s1 = s \<or>
     readMeta s (getCacheFilePath_simple w p @ ''.meta.json'') = Inr m \<and>
       getDropboxInstance_simple w s = (s1, Inl e) \<or>
     readMeta s (getCacheFilePath_simple w p @ ''.meta.json'') = Inr m \<and>
       getDropboxInstance_simple w s = (s0, Inr c) \<and>
       filesGetMetadata w s0 c p = (s1, Inl e)) \<longrightarrow>
      checkCache_simple w s p = (s1, CheckFailed e) \<and>
      downloadFile_simple w s p = tryDownload_simple w s1 p \<and>
      (\<forall>s' e'. downloadFile_simple w s p = (s', Inl e') \<longrightarrow>
         (\<exists>evs. trace s' = trace s1 @ evs \<and> evs \<noteq> [] \<and> raises_simple (last evs) e')))"
proof (intro conjI impI allI)
  assume a: "files s (getCacheFilePath w p) \<noteq> None \<and>
    files s (getCacheFilePath w p @ ''.meta.json'') \<noteq> None \<and>
    (readMeta s (getCacheFilePath w p @ ''.meta.json'') = Inl e \<and> s1 = s \<or>
     readMeta s (getCacheFilePath w p @ ''.meta.json'') = Inr m \<and>
       getDropboxInstance w s = (s1, Inl e) \<or>
     readMeta s (getCacheFilePath w p @ ''.meta.json'') = Inr m \<and>
       getDropboxInstance w s = (s0, Inr c) \<and> filesGetMetadata w s0 c p = (s1, Inl e))"
  then show ck: "checkCache w s p = (s1, CheckFailed e)"
    by (auto simp add: checkCache_def Let_def)
  then show df: "downloadFile w s p maxRetries = downloadLoop w s1 p 1 maxRetries None"
    by (simp add: downloadFile_def)
  fix s' e'
  assume "downloadFile w s p maxRetries = (s', Inl e')"
  with df have loop: "downloadLoop w s1 p 1 maxRetries None = (s', Inl e')" by simp
  show "if 1 \<le> maxRetries
        then \<exists>evs. trace s' = trace s1 @ evs \<and> evs \<noteq> [] \<and> raises (last evs) e'
        else s' = s1 \<and> e' = Error ''Error desconocido al descargar archivo''"
  proof (cases "1 \<le> maxRetries")
    case True
    from downloadLoop_Inl [OF loop True] True show ?thesis by auto
  next
    case False
    with loop show ?thesis by (auto simp add: downloadLoop_exit)
  qed
next
  assume a: "files s (getCacheFilePath_simple w p) \<noteq> None \<and>
    files s (getCacheFilePath_simple w p @ ''.meta.json'') \<noteq> None \<and>
    (readMeta s (getCacheFilePath_simple w p @ ''.meta.json'') = Inl e \<and> s1 = s \<or>
     readMeta s (getCacheFilePath_simple w p @ ''.meta.json'') = Inr m \<and>
       getDropboxInstance_simple w s = (s1, Inl e) \<or>
     readMeta s (getCacheFilePath_simple w p @ ''.meta.json'') = Inr m \<and>
       getDropboxInstance_simple w s = (s0, Inr c) \<and>
       filesGetMetadata w s0 c p = (s1, Inl e))"
  then show ck: "checkCache_simple w s p = (s1, CheckFailed e)"
    by (auto simp add: checkCache_simple_def Let_def)
  then show df: "downloadFile_simple w s p = tryDownload_simple w s1 p"
    by (simp add: downloadFile_simple_def)
  fix s' e'
  assume "downloadFile_simple w s p = (s', Inl e')"
  with df have t: "tryDownload_simple w s1 p = (s', Inl e')" by simp
  from tryDownload_simple_Inl [OF t]
  show "\<exists>evs. trace s' = trace s1 @ evs \<and> evs \<noteq> [] \<and> raises_simple (last evs) e'"
    by blast
qed

theorem failed_check_falls_through_witness:
  "checkCache world_not_found cached_warm_state ''/a'' =
     (fst (checkCache world_not_found cached_warm_state ''/a''),
      CheckFailed (DropboxResponseError 409 ''path/not_found/'')) \<and>
   downloadFile world_not_found cached_warm_state ''/a'' 3 =
     downloadLoop world_not_found (fst (checkCache world_not_found cached_warm_state ''/a''))
       ''/a'' 1 3 None \<and>
   downloadFile world_not_found cached_warm_state ''/a'' 3 =
     (fst (downloadFile world_not_found cached_warm_state ''/a'' 3),
      Inl (DropboxResponseError 409 ''path/not_found/'')) \<and>
   (\<exists>evs. trace (fst (downloadFile world_not_found cached_warm_state ''/a'' 3)) =
        trace (fst (checkCache world_not_found cached_warm_state ''/a'')) @ evs \<and>
      evs \<noteq> [] \<and> raises (last evs) (DropboxResponseError 409 ''path/not_found/'')) \<and>
   checkCache_simple world_not_found cached_warm_state ''/a'' =
     (fst (checkCache_simple world_not_found cached_warm_state ''/a''),
      CheckFailed (DropboxResponseError 409 ''path/not_found/'')) \<and>
   downloadFile_simple world_not_found cached_warm_state ''/a'' =
     tryDownload_simple world_not_found
       (fst (checkCache_simple world_not_found cached_warm_state ''/a'')) ''/a'' \<and>
   downloadFile_simple world_not_found cached_warm_state ''/a'' =
     (fst (downloadFile_simple world_not_found cached_warm_state ''/a''),
      Inl (DropboxResponseError 409 ''path/not_found/'')) \<and>
   (\<exists>evs. trace (fst (downloadFile_simple world_not_found cached_warm_state ''/a'')) =
        trace (fst (checkCache_simple world_not_found cached_warm_state ''/a'')) @ evs \<and>
      evs \<noteq> [] \<and> raises_simple (last evs) (DropboxResponseError 409 ''path/not_found/''))"
proof -
  let ?e = "DropboxResponseError 409 ''path/not_found/''"
  let ?w = world_not_found
  let ?s = cached_warm_state
  let ?m1 = "\<lparr>rev_id = Some ''rev1'', server_modified = Some ''d1'', last_updated = Some ''T0''\<rparr>"
  let ?m2 = "\<lparr>rev_id = Some ''rev1'', server_modified = Some ''d1'',
              last_updated = None :: string option\<rparr>"
  have h1: "files ?s (getCacheFilePath ?w ''/a'') \<noteq> None \<and>
    files ?s (getCacheFilePath ?w ''/a'' @ ''.meta.json'') \<noteq> None \<and>
    (readMeta ?s (getCacheFilePath ?w ''/a'' @ ''.meta.json'') = Inl ?e \<and>
       fst (checkCache ?w ?s ''/a'') = ?s \<or>
     readMeta ?s (getCacheFilePath ?w ''/a'' @ ''.meta.json'') = Inr ?m1 \<and>
       getDropboxInstance ?w ?s = (fst (checkCache ?w ?s ''/a''), Inl ?e) \<or>
     readMeta ?s (getCacheFilePath ?w ''/a'' @ ''.meta.json'') = Inr ?m1 \<and>
       getDropboxInstance ?w ?s = (?s, Inr (Dropbox (Some ''tok0''))) \<and>
       filesGetMetadata ?w ?s (Dropbox (Some ''tok0'')) ''/a'' =
         (fst (checkCache ?w ?s ''/a''), Inl ?e))"
    by (simp add: model_defs world_not_found_def example_world_def cached_warm_state_def warm_state_def
        cold_state_def cached_files_def Let_def)
  let ?sg = "fst (getDropboxInstance_simple ?w ?s)"
  have h2: "files ?s (getCacheFilePath_simple ?w ''/a'') \<noteq> None \<and>
    files ?s (getCacheFilePath_simple ?w ''/a'' @ ''.meta.json'') \<noteq> None \<and>
    (readMeta ?s (getCacheFilePath_simple ?w ''/a'' @ ''.meta.json'') = Inl ?e \<and>
       fst (checkCache_simple ?w ?s ''/a'') = ?s \<or>
     readMeta ?s (getCacheFilePath_simple ?w ''/a'' @ ''.meta.json'') = Inr ?m2 \<and>
       getDropboxInstance_simple ?w ?s = (fst (checkCache_simple ?w ?s ''/a''), Inl ?e) \<or>
     readMeta ?s (getCacheFilePath_simple ?w ''/a'' @ ''.meta.json'') = Inr ?m2 \<and>
       getDropboxInstance_simple ?w ?s = (?sg, Inr (Dropbox (Some ''tok1''))) \<and>
       filesGetMetadata ?w ?sg (Dropbox (Some ''tok1'')) ''/a'' =
         (fst (checkCache_simple ?w ?s ''/a''), Inl ?e))"
    by (simp add: model_defs world_not_found_def example_world_def cached_warm_state_def warm_state_def
        cold_state_def cached_files_def Let_def)
  have d1: "downloadFile ?w ?s ''/a'' 3 = (fst (downloadFile ?w ?s ''/a'' 3), Inl ?e)"
    by (simp add: model_defs world_not_found_def example_world_def cached_warm_state_def warm_state_def
        cold_state_def cached_files_def Let_def downloadLoop.simps)
  have d2: "downloadFile_simple ?w ?s ''/a'' = (fst (downloadFile_simple ?w ?s ''/a''), Inl ?e)"
    by (simp add: model_defs world_not_found_def example_world_def cached_warm_state_def warm_state_def
        cold_state_def cached_files_def Let_def)
  note t = failed_check_falls_through
  note r1 = t [THEN conjunct1, rule_format, OF h1]
  note r2 = t [THEN conjunct2, rule_format, OF h2]
  note a1 = r1 [THEN conjunct1] r1 [THEN conjunct2, THEN conjunct1, of 3]
  note a2 = r1 [THEN conjunct2, THEN conjunct2, rule_format, OF d1, simplified]
  note b1 = r2 [THEN conjunct1] r2 [THEN conjunct2, THEN conjunct1]
  note b2 = r2 [THEN conjunct2, THEN conjunct2, rule_format, OF d2]
  from a1 d1 a2 b1 d2 b2 show ?thesis
    by (intro conjI)
qed

subsection \<open>Claim C3: an authentication error is retried with new credentials\<close>

text \<open>
  Claim C3. When an attempt before the last one obtains a client and its download fails
  with status 401, the loop clears \<open>dbxInstance\<close> and \<open>currentAccessToken\<close> and goes on
  with the next attempt. In particular, when the first attempt of \<open>downloadFile\<close> fails so
  and the token endpoint and the download answer the retry, \<open>downloadFile\<close> returns the
  local path, with both files written; after the failed download the run makes exactly one
  token request, and the client and the token held at the end are the new ones.
\<close>

theorem auth_error_invalidates_and_retries:
  "(attempt < maxRetries \<and> getDropboxInstance w s = (s1, Inr c) \<and>
    api_filesDownload w (length (trace s1)) (accessToken c) p = Inl e \<and>
    status_of e = Some 401 \<longrightarrow>
      downloadLoop w s p attempt maxRetries lastError =
        downloadLoop w
          (s1\<lparr>trace := trace s1 @ [Download (accessToken c) p (Inl e)],
              dbxInstance := None, currentAccessToken := None\<rparr>)
          p (attempt + 1) maxRetries (Some e)) \<and>
   (checkCache w s0 p = (s, k) \<and> k \<noteq> Fresh \<and> 1 < maxRetries \<and>
    getDropboxInstance w s = (s1, Inr c) \<and>
    api_filesDownload w (length (trace s1)) (accessToken c) p = Inl e \<and>
    status_of e = Some 401 \<and>
    token_endpoint w (length (trace s1) + 1) = TokenJson t \<and>
    api_filesDownload w (length (trace s1) + 2) t p = Inr r \<and>
    fileBinary r = Some b \<longrightarrow>
      downloadFile w s0 p maxRetries =
        (s1\<lparr>dbxInstance := Some (Dropbox t), currentAccessToken := t,
            files := (files s1)
              (getCacheFilePath w p \<mapsto> Binary b,
               getCacheFilePath w p @ ''.meta.json'' \<mapsto>
                 Json (new_meta w r (length (trace s1) + 4))),
            trace := trace s1 @
              [Download (accessToken c) p (Inl e),
               TokenRequest (TokenJson t),
               Download t p (Inr r),
               WriteFile (getCacheFilePath w p) (Binary b),
               WriteFile (getCacheFilePath w p @ ''.meta.json'')
                 (Json (new_meta w r (length (trace s1) + 4)))]\<rparr>,
         Inr (getCacheFilePath w p)))"
proof (intro conjI impI)
  assume a: "attempt < maxRetries \<and> getDropboxInstance w s = (s1, Inr c) \<and>
    api_filesDownload w (length (trace s1)) (accessToken c) p = Inl e \<and>
    status_of e = Some 401"
  then have t: "tryDownload w s p =
      (s1\<lparr>trace := trace s1 @ [Download (accessToken c) p (Inl e)]\<rparr>, Inl e)"
    by (simp add: tryDownload_cases)
  from a have le: "attempt \<le> maxRetries" by simp
  from a show "downloadLoop w s p attempt maxRetries lastError =
        downloadLoop w
          (s1\<lparr>trace := trace s1 @ [Download (accessToken c) p (Inl e)],
              dbxInstance := None, currentAccessToken := None\<rparr>)
          p (attempt + 1) maxRetries (Some e)"
    by (simp add: downloadLoop_step [OF le t])
next
  assume a: "checkCache w s0 p = (s, k) \<and> k \<noteq> Fresh \<and> 1 < maxRetries \<and>
    getDropboxInstance w s = (s1, Inr c) \<and>
    api_filesDownload w (length (trace s1)) (accessToken c) p = Inl e \<and>
    status_of e = Some 401 \<and>
    token_endpoint w (length (trace s1) + 1) = TokenJson t \<and>
    api_filesDownload w (length (trace s1) + 2) t p = Inr r \<and>
    fileBinary r = Some b"
  let ?s2 = "s1\<lparr>trace := trace s1 @ [Download (accessToken c) p (Inl e)],
                dbxInstance := None, currentAccessToken := None\<rparr>"
  let ?s4 = "s1\<lparr>dbxInstance := Some (Dropbox t), currentAccessToken := t,
            files := (files s1)
              (getCacheFilePath w p \<mapsto> Binary b,
               getCacheFilePath w p @ ''.meta.json'' \<mapsto>
                 Json (new_meta w r (length (trace s1) + 4))),
            trace := trace s1 @
              [Download (accessToken c) p (Inl e),
               TokenRequest (TokenJson t),
               Download t p (Inr r),
               WriteFile (getCacheFilePath w p) (Binary b),
               WriteFile (getCacheFilePath w p @ ''.meta.json'')
                 (Json (new_meta w r (length (trace s1) + 4)))]\<rparr>"
  from a have t1: "tryDownload w s p =
      (s1\<lparr>trace := trace s1 @ [Download (accessToken c) p (Inl e)]\<rparr>, Inl e)"
    by (simp add: tryDownload_cases)
  from a have le1: "(1::int) \<le> maxRetries" and le2: "(2::int) \<le> maxRetries" by simp_all
  from a have step1: "downloadLoop w s p 1 maxRetries None =
      downloadLoop w ?s2 p 2 maxRetries (Some e)"
    by (simp add: downloadLoop_step [OF le1 t1])
  from a have g2: "getDropboxInstance w ?s2 =
      (?s2\<lparr>trace := trace ?s2 @ [TokenRequest (TokenJson t)], currentAccessToken := t,
           dbxInstance := Some (Dropbox t)\<rparr>, Inr (Dropbox t))"
    by (simp add: getDropboxInstance_cases held_def)
  from a have t2: "tryDownload w ?s2 p = (?s4, Inr (getCacheFilePath w p))"
    by (simp add: tryDownload_cases g2 new_meta_def eval_nat_numeral)
  have step2: "downloadLoop w ?s2 p 2 maxRetries (Some e) =
      (?s4, Inr (getCacheFilePath w p))"
    using downloadLoop_step [OF le2 t2, of "Some e"] by simp
  from a show "downloadFile w s0 p maxRetries = (?s4, Inr (getCacheFilePath w p))"
    by (cases k) (simp_all add: downloadFile_def step1 step2)
qed

theorem auth_error_invalidates_and_retries_witness:
  "downloadLoop world_always_expired warm_state ''/a'' 1 2 None =
     downloadLoop world_always_expired
       (cold_state\<lparr>trace := [Download (Some ''tok0'') ''/a''
                               (Inl (DropboxResponseError 401 ''expired_access_token/''))]\<rparr>)
       ''/a'' 2 2 (Some (DropboxResponseError 401 ''expired_access_token/'')) \<and>
   downloadFile world_expired_once warm_state ''/a'' 3 =
     (\<lparr>dbxInstance = Some (Dropbox (Some ''tok2'')), currentAccessToken = Some ''tok2'',
       dbx = None,
       files = [''/tmp/dropbox_cache/ca97'' \<mapsto> Binary ''xyz'',
                ''/tmp/dropbox_cache/ca97.meta.json'' \<mapsto>
                  Json \<lparr>rev_id = Some ''rev2'', server_modified = Some ''d2'',
                         last_updated = Some ''T''\<rparr>],
       trace = [Download (Some ''tok0'') ''/a''
                  (Inl (DropboxResponseError 401 ''expired_access_token/'')),
                TokenRequest (TokenJson (Some ''tok2'')),
                Download (Some ''tok2'') ''/a''
                  (Inr \<lparr>rev_id = Some ''rev2'', server_modified = Some ''d2'',
                         fileBinary = Some ''xyz'', fileBlob = None\<rparr>),
                WriteFile ''/tmp/dropbox_cache/ca97'' (Binary ''xyz''),
                WriteFile ''/tmp/dropbox_cache/ca97.meta.json''
                  (Json \<lparr>rev_id = Some ''rev2'', server_modified = Some ''d2'',
                          last_updated = Some ''T''\<rparr>)]\<rparr>,
      Inr ''/tmp/dropbox_cache/ca97'')"
proof -
  let ?e = "DropboxResponseError 401 ''expired_access_token/''"
  let ?r = "\<lparr>rev_id = Some ''rev2'', server_modified = Some ''d2'',
             fileBinary = Some ''xyz'', fileBlob = None\<rparr>"
  have h1: "(1::int) < 2 \<and>
    getDropboxInstance world_always_expired warm_state =
      (warm_state, Inr (Dropbox (Some ''tok0''))) \<and>
    api_filesDownload world_always_expired (length (trace warm_state))
      (accessToken (Dropbox (Some ''tok0''))) ''/a'' = Inl ?e \<and>
    status_of ?e = Some 401"
    by (simp add: model_defs world_always_expired_def world_expired_once_def example_world_def
        warm_state_def cold_state_def Let_def)
  have h2: "checkCache world_expired_once warm_state ''/a'' = (warm_state, NotCached) \<and>
    NotCached \<noteq> Fresh \<and> (1::int) < 3 \<and>
    getDropboxInstance world_expired_once warm_state =
      (warm_state, Inr (Dropbox (Some ''tok0''))) \<and>
    api_filesDownload world_expired_once (length (trace warm_state))
      (accessToken (Dropbox (Some ''tok0''))) ''/a'' = Inl ?e \<and>
    status_of ?e = Some 401 \<and>
    token_endpoint world_expired_once (length (trace warm_state) + 1) =
      TokenJson (Some ''tok2'') \<and>
    api_filesDownload world_expired_once (length (trace warm_state) + 2) (Some ''tok2'') ''/a'' =
      Inr ?r \<and>
    fileBinary ?r = Some ''xyz''"
    by (simp add: model_defs world_always_expired_def world_expired_once_def example_world_def
        warm_state_def cold_state_def Let_def)
  have p1: "getCacheFilePath world_expired_once ''/a'' = ''/tmp/dropbox_cache/ca97''"
    by (simp add: getCacheFilePath_def cacheDir_def hashString_def world_always_expired_def world_expired_once_def example_world_def
        warm_state_def cold_state_def)
  have m: "new_meta world_expired_once ?r n =
      \<lparr>rev_id = Some ''rev2'', server_modified = Some ''d2'', last_updated = Some ''T''\<rparr>" for n
    by (simp add: new_meta_def world_always_expired_def world_expired_once_def example_world_def
        warm_state_def cold_state_def)
  from auth_error_invalidates_and_retries [THEN conjunct1, rule_format, OF h1, of None]
       auth_error_invalidates_and_retries [THEN conjunct2, rule_format, OF h2]
  show ?thesis
    by (simp add: p1 m warm_state_def cold_state_def)
qed

subsection \<open>Claim C4: the error raised when the loop gives up\<close>

lemma downloadLoop_always_unauthorized:
  "\<forall>t tok. \<exists>e. api_filesDownload w t tok p = Inl e \<and> status_of e = Some 401 \<Longrightarrow>
   \<forall>t resp message. token_endpoint w t \<noteq> TokenFailure resp message \<Longrightarrow>
   attempt \<le> maxRetries \<Longrightarrow>
    \<exists>s' e. downloadLoop w s p attempt maxRetries lastError = (s', Inl e) \<and>
      status_of e = Some 401"
proof (induction w s p attempt maxRetries lastError rule: downloadLoop.induct)
  case (1 w s p attempt maxRetries lastError)
  obtain s0 r0 where g: "getDropboxInstance w s = (s0, r0)" by (cases "getDropboxInstance w s")
  have "\<exists>c. r0 = Inr c"
    using g "1.prems"(2) [rule_format, of "length (trace s)"]
    by (auto simp add: getDropboxInstance_cases split: if_splits token_response.splits)
  then obtain c where c: "r0 = Inr c" by blast
  from "1.prems"(1) obtain e where
    e: "api_filesDownload w (length (trace s0)) (accessToken c) p = Inl e" "status_of e = Some 401"
    by blast
  let ?s1 = "s0\<lparr>trace := trace s0 @ [Download (accessToken c) p (Inl e)]\<rparr>"
  from g c e have t: "tryDownload w s p = (?s1, Inl e)"
    by (simp add: tryDownload_cases)
  note step = downloadLoop_step [OF "1.prems"(3) t, of lastError]
  show ?case
  proof (cases "attempt < maxRetries")
    case False
    with step e show ?thesis by simp
  next
    case True
    then have le: "attempt + 1 \<le> maxRetries" by simp
    from True e have c401: "status_of e = Some 401 \<and> attempt < maxRetries" by simp
    from "1.IH" [OF "1.prems"(3) t [symmetric] refl c401 "1.prems"(1,2) le] step c401
    show ?thesis by simp
  qed
qed

text \<open>
  Claim C4 as stated fails: when the download answers 409, the error \<open>downloadFile\<close> raises
  is the very error the SDK raised, which names neither the remote path nor a number of
  attempts.
\<close>

theorem downloadFile_raises_last_error_counterexample:
  "api_filesDownload world_not_found 1 (Some ''tok1'') ''/x'' =
     Inl (DropboxResponseError 409 ''path/not_found/'') \<and>
   snd (downloadFile world_not_found cold_state ''/x'' 3) =
     Inl (DropboxResponseError 409 ''path/not_found/'')"
  by (simp add: model_defs world_not_found_def world_always_expired_def example_world_def
        cold_state_def Let_def downloadLoop.simps)

text \<open>
  Claim C4, amended. When \<open>downloadFile\<close> fails, the error it raises is the last underlying
  error itself, not wrapped: the error the last call of the download loop raised (a failed
  token request, a failed download, or a download without content), or the plain
  \<open>Error\<close> \<open>Error desconocido al descargar archivo\<close> when no attempt was made
  (\<open>maxRetries < 1\<close>). When every download answers 401 and no token request fails, the loop
  makes exactly \<open>maxRetries\<close> download calls and raises the 401 error of the last one.
\<close>

theorem downloadFile_raises_last_error:
  "(checkCache w s p = (s1, k) \<and> downloadFile w s p maxRetries = (s', Inl e) \<longrightarrow>
      (if 1 \<le> maxRetries
       then \<exists>evs. trace s' = trace s1 @ evs \<and> evs \<noteq> [] \<and> raises (last evs) e
       else s' = s1 \<and> e = Error ''Error desconocido al descargar archivo'')) \<and>
   ((\<forall>t tok. \<exists>e. api_filesDownload w t tok p = Inl e \<and> status_of e = Some 401) \<and>
    (\<forall>t resp message. token_endpoint w t \<noteq> TokenFailure resp message) \<and>
    checkCache w s p = (s1, k) \<and> k \<noteq> Fresh \<and> 1 \<le> maxRetries \<longrightarrow>
      (\<exists>s' e tok. downloadFile w s p maxRetries = (s', Inl e) \<and> status_of e = Some 401 \<and>
         last (trace s') = Download tok p (Inl e) \<and>
         int (length (filter is_download (new_events s1 s'))) = maxRetries))"
proof (intro conjI impI)
  assume a: "checkCache w s p = (s1, k) \<and> downloadFile w s p maxRetries = (s', Inl e)"
  then have loop: "downloadLoop w s1 p 1 maxRetries None = (s', Inl e)"
    by (cases k) (auto simp add: downloadFile_def)
  show "if 1 \<le> maxRetries
       then \<exists>evs. trace s' = trace s1 @ evs \<and> evs \<noteq> [] \<and> raises (last evs) e
       else s' = s1 \<and> e = Error ''Error desconocido al descargar archivo''"
  proof (cases "1 \<le> maxRetries")
    case True
    from downloadLoop_Inl [OF loop True] True show ?thesis by auto
  next
    case False
    with loop show ?thesis by (auto simp add: downloadLoop_exit)
  qed
next
  assume a: "(\<forall>t tok. \<exists>e. api_filesDownload w t tok p = Inl e \<and> status_of e = Some 401) \<and>
    (\<forall>t resp message. token_endpoint w t \<noteq> TokenFailure resp message) \<and>
    checkCache w s p = (s1, k) \<and> k \<noteq> Fresh \<and> 1 \<le> maxRetries"
  then have dl: "\<forall>t tok. \<exists>e. api_filesDownload w t tok p = Inl e \<and> status_of e = Some 401"
    and tk: "\<forall>t resp message. token_endpoint w t \<noteq> TokenFailure resp message"
    and le: "1 \<le> maxRetries"
    by simp_all
  from downloadLoop_always_unauthorized [OF dl tk le, of s1 None]
  obtain s' e where loop: "downloadLoop w s1 p 1 maxRetries None = (s', Inl e)"
    and e: "status_of e = Some 401"
    by blast
  from a have r: "downloadFile w s p maxRetries = (s', Inl e)"
    by (cases k) (auto simp add: downloadFile_def loop)
  from downloadLoop_Inl [OF loop le] e
  obtain evs c where evs: "trace s' = trace s1 @ evs" "evs \<noteq> []"
    "1 + int (length (filter is_download evs)) = maxRetries + 1"
    "last evs = Download (accessToken c) p (Inl e)"
    by auto
  from evs have "last (trace s') = Download (accessToken c) p (Inl e)"
    and "int (length (filter is_download (new_events s1 s'))) = maxRetries"
    by (simp_all add: new_events_def)
  with r e show "\<exists>s' e tok. downloadFile w s p maxRetries = (s', Inl e) \<and>
      status_of e = Some 401 \<and> last (trace s') = Download tok p (Inl e) \<and>
      int (length (filter is_download (new_events s1 s'))) = maxRetries"
    by auto
qed

theorem downloadFile_raises_last_error_witness:
  "(\<exists>evs. trace (fst (downloadFile world_not_found cold_state ''/x'' 3)) = [] @ evs \<and>
      evs \<noteq> [] \<and> raises (last evs) (DropboxResponseError 409 ''path/not_found/'')) \<and>
   fst (downloadFile example_world cold_state ''/a'' 0) = cold_state \<and>
   snd (downloadFile example_world cold_state ''/a'' 0) =
     Inl (Error ''Error desconocido al descargar archivo'') \<and>
   (\<exists>s' e tok. downloadFile world_always_expired cold_state ''/a'' 3 = (s', Inl e) \<and>
      status_of e = Some 401 \<and> last (trace s') = Download tok ''/a'' (Inl e) \<and>
      int (length (filter is_download (new_events cold_state s'))) = 3)"
proof -
  let ?e = "DropboxResponseError 409 ''path/not_found/''"
  let ?s' = "cold_state\<lparr>dbxInstance := Some (Dropbox (Some ''tok1'')),
                 currentAccessToken := Some ''tok1'',
                 trace := [TokenRequest (TokenJson (Some ''tok1'')),
                           Download (Some ''tok1'') ''/x'' (Inl ?e)]\<rparr>"
  have h1: "checkCache world_not_found cold_state ''/x'' = (cold_state, NotCached) \<and>
    downloadFile world_not_found cold_state ''/x'' 3 = (?s', Inl ?e)"
    by (simp add: model_defs world_not_found_def world_always_expired_def example_world_def
        cold_state_def Let_def downloadLoop.simps)
  have h2: "checkCache example_world cold_state ''/a'' = (cold_state, NotCached) \<and>
    downloadFile example_world cold_state ''/a'' 0 =
      (cold_state, Inl (Error ''Error desconocido al descargar archivo''))"
    by (simp add: model_defs world_not_found_def world_always_expired_def example_world_def
        cold_state_def Let_def downloadLoop.simps)
  have h3: "(\<forall>t tok. \<exists>e. api_filesDownload world_always_expired t tok ''/a'' = Inl e \<and>
       status_of e = Some 401) \<and>
    (\<forall>t resp message. token_endpoint world_always_expired t \<noteq> TokenFailure resp message) \<and>
    checkCache world_always_expired cold_state ''/a'' = (cold_state, NotCached) \<and>
    NotCached \<noteq> Fresh \<and> (1::int) \<le> 3"
    by (simp add: model_defs world_not_found_def world_always_expired_def example_world_def
        cold_state_def Let_def)
  have tr: "trace cold_state = []"
    by (simp add: cold_state_def)
  note t = downloadFile_raises_last_error
  from t [THEN conjunct1, rule_format, OF h1] t [THEN conjunct1, rule_format, OF h2]
       t [THEN conjunct2, rule_format, OF h3]
  show ?thesis
    by (simp add: tr h1 h2)
qed

subsection \<open>Claim C5: a path that does not exist fails at once\<close>

text \<open>
  Claim C5. When the copy is not served from the cache and the first call of
  \<open>filesDownload\<close> fails with an error whose status is not 401 (a path that does not exist
  answers 409), \<open>downloadFile\<close> fails at once with that error: the run made exactly one
  download call and the client and the token are the ones the attempt used.
\<close>

theorem not_found_fails_on_first_attempt:
  "checkCache w s p = (s1, k) \<and> k \<noteq> Fresh \<and> 1 \<le> maxRetries \<and>
   getDropboxInstance w s1 = (s2, Inr c) \<and>
   api_filesDownload w (length (trace s2)) (accessToken c) p = Inl e \<and>
   status_of e \<noteq> Some 401 \<longrightarrow>
     downloadFile w s p maxRetries =
       (s2\<lparr>trace := trace s2 @ [Download (accessToken c) p (Inl e)]\<rparr>, Inl e) \<and>
     filter is_download (new_events s (fst (downloadFile w s p maxRetries))) =
       [Download (accessToken c) p (Inl e)] \<and>
     dbxInstance (fst (downloadFile w s p maxRetries)) = Some c \<and>
     currentAccessToken (fst (downloadFile w s p maxRetries)) = currentAccessToken s2"
proof (intro impI)
  assume a: "checkCache w s p = (s1, k) \<and> k \<noteq> Fresh \<and> 1 \<le> maxRetries \<and>
   getDropboxInstance w s1 = (s2, Inr c) \<and>
   api_filesDownload w (length (trace s2)) (accessToken c) p = Inl e \<and>
   status_of e \<noteq> Some 401"
  let ?s3 = "s2\<lparr>trace := trace s2 @ [Download (accessToken c) p (Inl e)]\<rparr>"
  from a have t: "tryDownload w s1 p = (?s3, Inl e)"
    by (simp add: tryDownload_cases)
  from a have le: "1 \<le> maxRetries" by simp
  from a have loop: "downloadLoop w s1 p 1 maxRetries None = (?s3, Inl e)"
    by (simp add: downloadLoop_step [OF le t])
  from a have r: "downloadFile w s p maxRetries = (?s3, Inl e)"
    by (cases k) (simp_all add: downloadFile_def loop)
  from a checkCache_effect [of w s p s1 k] obtain evs1 where
    e1: "trace s1 = trace s @ evs1" "\<forall>ev \<in> set evs1. is_quiet ev" by blast
  from a getDropboxInstance_quiet [of w s1 s2 "Inr c"] obtain evs2 where
    e2: "trace s2 = trace s1 @ evs2" "\<forall>ev \<in> set evs2. is_quiet ev" by blast
  from a have c: "dbxInstance s2 = Some c"
    by (auto dest: getDropboxInstance_Inr)
  show "downloadFile w s p maxRetries =
       (s2\<lparr>trace := trace s2 @ [Download (accessToken c) p (Inl e)]\<rparr>, Inl e) \<and>
     filter is_download (new_events s (fst (downloadFile w s p maxRetries))) =
       [Download (accessToken c) p (Inl e)] \<and>
     dbxInstance (fst (downloadFile w s p maxRetries)) = Some c \<and>
     currentAccessToken (fst (downloadFile w s p maxRetries)) = currentAccessToken s2"
    using e1 e2 c by (simp add: r new_events_def filter_none)
qed

theorem not_found_fails_on_first_attempt_witness:
  "downloadFile world_not_found cold_state ''/x'' 3 =
     (cold_state\<lparr>dbxInstance := Some (Dropbox (Some ''tok1'')),
                 currentAccessToken := Some ''tok1'',
                 trace := [TokenRequest (TokenJson (Some ''tok1'')),
                           Download (Some ''tok1'') ''/x''
                             (Inl (DropboxResponseError 409 ''path/not_found/''))]\<rparr>,
      Inl (DropboxResponseError 409 ''path/not_found/'')) \<and>
   filter is_download
     (new_events cold_state (fst (downloadFile world_not_found cold_state ''/x'' 3))) =
     [Download (Some ''tok1'') ''/x'' (Inl (DropboxResponseError 409 ''path/not_found/''))]"
proof -
  let ?s2 = "cold_state\<lparr>dbxInstance := Some (Dropbox (Some ''tok1'')),
                        currentAccessToken := Some ''tok1'',
                        trace := [TokenRequest (TokenJson (Some ''tok1''))]\<rparr>"
  have h: "checkCache world_not_found cold_state ''/x'' = (cold_state, NotCached) \<and>
    NotCached \<noteq> Fresh \<and> (1::int) \<le> 3 \<and>
    getDropboxInstance world_not_found cold_state = (?s2, Inr (Dropbox (Some ''tok1''))) \<and>
    api_filesDownload world_not_found (length (trace ?s2)) (accessToken (Dropbox (Some ''tok1'')))
      ''/x'' = Inl (DropboxResponseError 409 ''path/not_found/'') \<and>
    status_of (DropboxResponseError 409 ''path/not_found/'') \<noteq> Some 401"
    by (simp add: model_defs world_not_found_def example_world_def cold_state_def Let_def)
  have tr: "trace cold_state = []"
    by (simp add: cold_state_def)
  from not_found_fails_on_first_attempt [rule_format, OF h]
  show ?thesis
    by (simp add: new_events_def tr)
qed

subsection \<open>Claim C6: a copy that is not current is downloaded, content before metadata\<close>

lemma is_preliminary_quiet: "is_quiet ev \<Longrightarrow> is_preliminary ev"
  by (cases ev rule: is_preliminary.cases) simp_all

lemma is_preliminary_retried: "is_retried ev \<Longrightarrow> is_preliminary ev"
  by (cases ev rule: is_preliminary.cases) simp_all

lemma is_preliminary_simps2 [simp]:
  "is_preliminary ev \<Longrightarrow> \<not> is_write ev" "is_preliminary ev \<Longrightarrow> \<not> download_ok ev"
  by (cases ev rule: is_preliminary.cases; simp)+

lemma apply_writes_no_write:
  "\<forall>ev \<in> set evs. \<not> is_write ev \<Longrightarrow> apply_writes fs (evs @ rest) = apply_writes fs rest"
proof (induction evs)
  case Nil
  show ?case by simp
next
  case (Cons ev evs)
  then show ?case by (cases ev) simp_all
qed

lemma write_order:
  assumes evts: "evts = evs @ [Download tok p r, WriteFile x c, WriteFile y m]"
    and quiet: "\<forall>ev \<in> set evs. \<not> is_write ev" and xy: "x \<noteq> y"
  shows "apply_writes fs evts = fs(x \<mapsto> c, y \<mapsto> m)"
    and "WriteFile y m \<in> set (take n evts) \<Longrightarrow> apply_writes fs (take n evts) x = Some c"
proof -
  show all: "apply_writes fs evts = fs(x \<mapsto> c, y \<mapsto> m)"
    using quiet by (simp add: evts apply_writes_no_write)
  assume w: "WriteFile y m \<in> set (take n evts)"
  have "length evts \<le> n"
  proof (rule ccontr)
    assume "\<not> length evts \<le> n"
    then have le: "n \<le> length (evs @ [Download tok p r, WriteFile x c])"
      by (simp add: evts)
    have e2: "evts = (evs @ [Download tok p r, WriteFile x c]) @ [WriteFile y m]"
      by (simp add: evts)
    have "take n evts = take n (evs @ [Download tok p r, WriteFile x c])"
      by (subst e2, subst take_append) (use le in simp)
    with w have "WriteFile y m \<in> set (evs @ [Download tok p r, WriteFile x c])"
      by (metis in_set_takeD)
    with quiet xy show False by auto
  qed
  then have "take n evts = evts" by simp
  with all xy show "apply_writes fs (take n evts) x = Some c" by simp
qed

text \<open>
  Claim C6 as stated fails for the retrying module. The cached revision \<open>rev1\<close> differs
  from the remote revision \<open>rev2\<close> and \<open>downloadFile\<close> succeeds, but the run calls
  \<open>filesDownload\<close> twice: the first call is rejected with status 401 and retried. And
  before the last event of the run, between the two writes, the metadata file still holds
  the record of \<open>rev1\<close> while the content file already holds the content of \<open>rev2\<close>.
\<close>

theorem changed_copy_two_download_calls_counterexample:
  "readMeta cached_warm_state ''/tmp/dropbox_cache/ca97.meta.json'' =
     Inr \<lparr>rev_id = Some ''rev1'', server_modified = Some ''d1'', last_updated = Some ''T0''\<rparr> \<and>
   api_filesGetMetadata world_revised 0 (Some ''tok0'') ''/a'' =
     Inr \<lparr>rev_id = Some ''rev2'', server_modified = Some ''d2''\<rparr> \<and>
   snd (downloadFile world_revised cached_warm_state ''/a'' 3) = Inr ''/tmp/dropbox_cache/ca97'' \<and>
   new_events cached_warm_state (fst (downloadFile world_revised cached_warm_state ''/a'' 3)) =
     [GetMetadata (Some ''tok0'') ''/a''
        (Inr \<lparr>rev_id = Some ''rev2'', server_modified = Some ''d2''\<rparr>),
      Download (Some ''tok0'') ''/a'' (Inl (DropboxResponseError 401 ''expired_access_token/'')),
      TokenRequest (TokenJson (Some ''tok2'')),
      Download (Some ''tok2'') ''/a''
        (Inr \<lparr>rev_id = Some ''rev2'', server_modified = Some ''d2'',
               fileBinary = Some ''xyz'', fileBlob = None\<rparr>),
      WriteFile ''/tmp/dropbox_cache/ca97'' (Binary ''xyz''),
      WriteFile ''/tmp/dropbox_cache/ca97.meta.json''
        (Json \<lparr>rev_id = Some ''rev2'', server_modified = Some ''d2'',
                last_updated = Some ''T''\<rparr>)] \<and>
   length (filter is_download
     (new_events cached_warm_state
        (fst (downloadFile world_revised cached_warm_state ''/a'' 3)))) = 2 \<and>
   apply_writes (files cached_warm_state)
     (butlast (new_events cached_warm_state
        (fst (downloadFile world_revised cached_warm_state ''/a'' 3))))
     ''/tmp/dropbox_cache/ca97.meta.json'' =
     Some (Json \<lparr>rev_id = Some ''rev1'', server_modified = Some ''d1'',
                  last_updated = Some ''T0''\<rparr>) \<and>
   apply_writes (files cached_warm_state)
     (butlast (new_events cached_warm_state
        (fst (downloadFile world_revised cached_warm_state ''/a'' 3))))
     ''/tmp/dropbox_cache/ca97'' = Some (Binary ''xyz'')"
proof -
  let ?e = "DropboxResponseError 401 ''expired_access_token/''"
  let ?m1 = "\<lparr>rev_id = Some ''rev1'', server_modified = Some ''d1'', last_updated = Some ''T0''\<rparr>"
  let ?m2 = "\<lparr>rev_id = Some ''rev2'', server_modified = Some ''d2'', last_updated = Some ''T''\<rparr>"
  let ?evs = "[GetMetadata (Some ''tok0'') ''/a''
        (Inr \<lparr>rev_id = Some ''rev2'', server_modified = Some ''d2''\<rparr>),
      Download (Some ''tok0'') ''/a'' (Inl ?e),
      TokenRequest (TokenJson (Some ''tok2'')),
      Download (Some ''tok2'') ''/a''
        (Inr \<lparr>rev_id = Some ''rev2'', server_modified = Some ''d2'',
               fileBinary = Some ''xyz'', fileBlob = None\<rparr>),
      WriteFile ''/tmp/dropbox_cache/ca97'' (Binary ''xyz''),
      WriteFile ''/tmp/dropbox_cache/ca97.meta.json'' (Json ?m2)]"
  have run: "downloadFile world_revised cached_warm_state ''/a'' 3 =
      (cached_warm_state\<lparr>dbxInstance := Some (Dropbox (Some ''tok2'')),
         currentAccessToken := Some ''tok2'',
         files := cached_files(''/tmp/dropbox_cache/ca97'' \<mapsto> Binary ''xyz'',
           ''/tmp/dropbox_cache/ca97.meta.json'' \<mapsto> Json ?m2),
         trace := ?evs\<rparr>,
       Inr ''/tmp/dropbox_cache/ca97'')"
    by (simp add: model_defs world_revised_def example_world_def cached_warm_state_def
        warm_state_def cold_state_def cached_files_def Let_def downloadLoop.simps)
  have st: "trace cached_warm_state = []" "files cached_warm_state = cached_files"
    by (simp_all add: cached_warm_state_def warm_state_def cold_state_def)
  have ev: "new_events cached_warm_state
      (fst (downloadFile world_revised cached_warm_state ''/a'' 3)) = ?evs"
    by (simp add: run new_events_def st)
  have c1: "readMeta cached_warm_state ''/tmp/dropbox_cache/ca97.meta.json'' = Inr ?m1"
    by (simp add: readMeta_def st cached_files_def)
  have c2: "api_filesGetMetadata world_revised 0 (Some ''tok0'') ''/a'' =
      Inr \<lparr>rev_id = Some ''rev2'', server_modified = Some ''d2''\<rparr>"
    by (simp add: world_revised_def)
  have c3: "snd (downloadFile world_revised cached_warm_state ''/a'' 3) =
      Inr ''/tmp/dropbox_cache/ca97''"
    by (simp add: run)
  have c5: "length (filter is_download ?evs) = 2"
    by simp
  have c6: "apply_writes cached_files (butlast ?evs) ''/tmp/dropbox_cache/ca97.meta.json'' =
      Some (Json ?m1)"
    by (simp add: cached_files_def)
  have c7: "apply_writes cached_files (butlast ?evs) ''/tmp/dropbox_cache/ca97'' =
      Some (Binary ''xyz'')"
    by (simp add: cached_files_def)
  show ?thesis
    unfolding ev st(2) using c1 c2 c3 c5 c6 c7 by (intro conjI refl)
qed

text \<open>
  Claim C6, amended. When both cached files exist and either the cached revision differs
  from the revision the remote metadata query answers, or the check is inconclusive (the
  metadata file does not parse, no client is obtained, the query fails), a succeeding
  \<open>downloadFile\<close> returns the local path and its run is: token requests, queries and, in
  the retrying module only, download calls rejected with status 401; then the one download
  that delivers content, which is the answer of the remote API; then the write of that
  content at the local path; then the write of its metadata at the metadata path. These
  are the only two writes and both files end up overwritten with what that download
  returned. In \<open>services/dropboxService.js\<close> the run has exactly one download call; in the
  retrying module it has one more than the calls rejected with 401. At every point of the
  run at which the metadata of this download has been written, the content file holds the
  content of this download.
\<close>

theorem changed_copy_is_downloaded_content_first:
  "(files s (getCacheFilePath w p) \<noteq> None \<and>
    files s (getCacheFilePath w p @ ''.meta.json'') \<noteq> None \<and>
    (readMeta s (getCacheFilePath w p @ ''.meta.json'') = Inl e0 \<or>
     readMeta s (getCacheFilePath w p @ ''.meta.json'') = Inr cachedMeta \<and>
       getDropboxInstance w s = (s0, Inl e0) \<or>
     readMeta s (getCacheFilePath w p @ ''.meta.json'') = Inr cachedMeta \<and>
       getDropboxInstance w s = (s0, Inr c0) \<and>
       api_filesGetMetadata w (length (trace s0)) (accessToken c0) p = Inl e0 \<or>
     readMeta s (getCacheFilePath w p @ ''.meta.json'') = Inr cachedMeta \<and>
       getDropboxInstance w s = (s0, Inr c0) \<and>
       api_filesGetMetadata w (length (trace s0)) (accessToken c0) p = Inr currentMeta \<and>
       rev_id currentMeta \<noteq> rev_id cachedMeta) \<and>
    downloadFile w s p maxRetries = (s', Inr x) \<longrightarrow>
      x = getCacheFilePath w p \<and>
      (\<exists>evs tok r b m.
         new_events s s' = evs @
           [Download tok p (Inr r), WriteFile x (Binary b),
            WriteFile (x @ ''.meta.json'') (Json m)] \<and>
         (\<forall>ev \<in> set evs. is_preliminary ev) \<and>
         api_filesDownload w (length (trace s) + length evs) tok p = Inr r \<and>
         fileBinary r = Some b \<and>
         m = new_meta w r (length (trace s) + length evs + 2) \<and>
         filter download_ok (new_events s s') = [Download tok p (Inr r)] \<and>
         length (filter is_download (new_events s s')) = Suc (length (filter is_download evs)) \<and>
         filter is_write (new_events s s') =
           [WriteFile x (Binary b), WriteFile (x @ ''.meta.json'') (Json m)] \<and>
         files s' = (files s)(x \<mapsto> Binary b, x @ ''.meta.json'' \<mapsto> Json m) \<and>
         apply_writes (files s) (new_events s s') = files s' \<and>
         (\<forall>n. WriteFile (x @ ''.meta.json'') (Json m) \<in> set (take n (new_events s s')) \<longrightarrow>
              apply_writes (files s) (take n (new_events s s')) x = Some (Binary b)))) \<and>
   (files s (getCacheFilePath_simple w p) \<noteq> None \<and>
    files s (getCacheFilePath_simple w p @ ''.meta.json'') \<noteq> None \<and>
    (readMeta s (getCacheFilePath_simple w p @ ''.meta.json'') = Inl e0 \<or>
     readMeta s (getCacheFilePath_simple w p @ ''.meta.json'') = Inr cachedMeta \<and>
       getDropboxInstance_simple w s = (s0, Inl e0) \<or>
     readMeta s (getCacheFilePath_simple w p @ ''.meta.json'') = Inr cachedMeta \<and>
       getDropboxInstance_simple w s = (s0, Inr c0) \<and>
       api_filesGetMetadata w (length (trace s0)) (accessToken c0) p = Inl e0 \<or>
     readMeta s (getCacheFilePath_simple w p @ ''.meta.json'') = Inr cachedMeta \<and>
       getDropboxInstance_simple w s = (s0, Inr c0) \<and>
       api_filesGetMetadata w (length (trace s0)) (accessToken c0) p = Inr currentMeta \<and>
       rev_id currentMeta \<noteq> rev_id cachedMeta) \<and>
    downloadFile_simple w s p = (s', Inr x) \<longrightarrow>
      x = getCacheFilePath_simple w p \<and>
      (\<exists>evs tok r b m.
         new_events s s' = evs @
           [Download tok p (Inr r), WriteFile x (Binary b),
            WriteFile (x @ ''.meta.json'') (Json m)] \<and>
         (\<forall>ev \<in> set evs. is_preliminary ev) \<and>
         api_filesDownload w (length (trace s) + length evs) tok p = Inr r \<and>
         fileBinary r = Some b \<and>
         m = \<lparr>rev_id = rev_id r, server_modified = server_modified r, last_updated = None\<rparr> \<and>
         filter is_download (new_events s s') = [Download tok p (Inr r)] \<and>
         filter is_write (new_events s s') =
           [WriteFile x (Binary b), WriteFile (x @ ''.meta.json'') (Json m)] \<and>
         files s' = (files s)(x \<mapsto> Binary b, x @ ''.meta.json'' \<mapsto> Json m) \<and>
         apply_writes (files s) (new_events s s') = files s' \<and>
         (\<forall>n. WriteFile (x @ ''.meta.json'') (Json m) \<in> set (take n (new_events s s')) \<longrightarrow>
              apply_writes (files s) (take n (new_events s s')) x = Some (Binary b))))"
proof (intro conjI impI)
  assume a: "files s (getCacheFilePath w p) \<noteq> None \<and>
    files s (getCacheFilePath w p @ ''.meta.json'') \<noteq> None \<and>
    (readMeta s (getCacheFilePath w p @ ''.meta.json'') = Inl e0 \<or>
     readMeta s (getCacheFilePath w p @ ''.meta.json'') = Inr cachedMeta \<and>
       getDropboxInstance w s = (s0, Inl e0) \<or>
     readMeta s (getCacheFilePath w p @ ''.meta.json'') = Inr cachedMeta \<and>
       getDropboxInstance w s = (s0, Inr c0) \<and>
       api_filesGetMetadata w (length (trace s0)) (accessToken c0) p = Inl e0 \<or>
     readMeta s (getCacheFilePath w p @ ''.meta.json'') = Inr cachedMeta \<and>
       getDropboxInstance w s = (s0, Inr c0) \<and>
       api_filesGetMetadata w (length (trace s0)) (accessToken c0) p = Inr currentMeta \<and>
       rev_id currentMeta \<noteq> rev_id cachedMeta) \<and>
    downloadFile w s p maxRetries = (s', Inr x)"
  then have "\<exists>s1 k. checkCache w s p = (s1, k) \<and> k \<noteq> Fresh"
    by (auto simp add: checkCache_def filesGetMetadata_def Let_def)
  then obtain s1 k where ck: "checkCache w s p = (s1, k)" "k \<noteq> Fresh" by blast
  from a ck have loop: "downloadLoop w s1 p 1 maxRetries None = (s', Inr x)"
    by (cases k) (auto simp add: downloadFile_def)
  from checkCache_effect [OF ck(1)] obtain evs0 where
    e0: "files s1 = files s" "trace s1 = trace s @ evs0" "\<forall>ev \<in> set evs0. is_quiet ev"
    by blast
  from downloadLoop_Inr [OF loop] obtain evs1 c r b where
    e: "x = getCacheFilePath w p"
      "trace s' = trace s1 @ evs1 @
        [Download (accessToken c) p (Inr r), WriteFile x (Binary b),
         WriteFile (x @ ''.meta.json'') (Json (new_meta w r (length (trace s1 @ evs1) + 2)))]"
      "\<forall>ev \<in> set evs1. is_retried ev" "fileBinary r = Some b"
      "api_filesDownload w (length (trace s1 @ evs1)) (accessToken c) p = Inr r"
      "files s' = (files s1)(x \<mapsto> Binary b,
        x @ ''.meta.json'' \<mapsto> Json (new_meta w r (length (trace s1 @ evs1) + 2)))"
    by blast
  from e(1) show "x = getCacheFilePath w p" .
  let ?evs = "evs0 @ evs1"
  let ?m = "new_meta w r (length (trace s) + length ?evs + 2)"
  have len: "length (trace s1 @ evs1) = length (trace s) + length ?evs"
    by (simp add: e0(2))
  have pre: "\<forall>ev \<in> set ?evs. is_preliminary ev"
    using e0(3) e(3) by (auto intro: is_preliminary_quiet is_preliminary_retried)
  then have nw: "\<forall>ev \<in> set ?evs. \<not> is_write ev" by simp
  have n0: "new_events s s' = ?evs @
      [Download (accessToken c) p (Inr r), WriteFile x (Binary b),
       WriteFile (x @ ''.meta.json'') (Json ?m)]"
    using e(2) e0(2) by (simp add: new_events_def)
  have fl: "files s' = (files s)(x \<mapsto> Binary b, x @ ''.meta.json'' \<mapsto> Json ?m)"
    using e(6) e0(1,2) by simp
  have f1: "filter download_ok (new_events s s') = [Download (accessToken c) p (Inr r)]"
    using pre by (simp add: n0 filter_none)
  have f2: "length (filter is_download (new_events s s')) = Suc (length (filter is_download ?evs))"
    by (simp add: n0)
  have f3: "filter is_write (new_events s s') =
      [WriteFile x (Binary b), WriteFile (x @ ''.meta.json'') (Json ?m)]"
    using pre by (simp add: n0 filter_none)
  have xy: "x \<noteq> x @ ''.meta.json''" by simp
  note wo = write_order [where fs = "files s", OF n0 nw xy]
  have f4: "apply_writes (files s) (new_events s s') = files s'"
    using wo(1) fl by simp
  have f5: "\<forall>n. WriteFile (x @ ''.meta.json'') (Json ?m) \<in> set (take n (new_events s s')) \<longrightarrow>
      apply_writes (files s) (take n (new_events s s')) x = Some (Binary b)"
    using wo(2) by blast
  have api: "api_filesDownload w (length (trace s) + length ?evs) (accessToken c) p = Inr r"
    using e(5) len by (simp add: add.assoc)
  from n0 pre api e(4) f1 f2 f3 fl f4 f5
  show "(\<exists>evs tok r b m.
         new_events s s' = evs @
           [Download tok p (Inr r), WriteFile x (Binary b),
            WriteFile (x @ ''.meta.json'') (Json m)] \<and>
         (\<forall>ev \<in> set evs. is_preliminary ev) \<and>
         api_filesDownload w (length (trace s) + length evs) tok p = Inr r \<and>
         fileBinary r = Some b \<and>
         m = new_meta w r (length (trace s) + length evs + 2) \<and>
         filter download_ok (new_events s s') = [Download tok p (Inr r)] \<and>
         length (filter is_download (new_events s s')) = Suc (length (filter is_download evs)) \<and>
         filter is_write (new_events s s') =
           [WriteFile x (Binary b), WriteFile (x @ ''.meta.json'') (Json m)] \<and>
         files s' = (files s)(x \<mapsto> Binary b, x @ ''.meta.json'' \<mapsto> Json m) \<and>
         apply_writes (files s) (new_events s s') = files s' \<and>
         (\<forall>n. WriteFile (x @ ''.meta.json'') (Json m) \<in> set (take n (new_events s s')) \<longrightarrow>
              apply_writes (files s) (take n (new_events s s')) x = Some (Binary b)))"
    by (intro exI [of _ ?evs] exI [of _ "accessToken c"] exI [of _ r] exI [of _ b]
        exI [of _ ?m]) (intro conjI refl; assumption)
next
  assume a: "files s (getCacheFilePath_simple w p) \<noteq> None \<and>
    files s (getCacheFilePath_simple w p @ ''.meta.json'') \<noteq> None \<and>
    (readMeta s (getCacheFilePath_simple w p @ ''.meta.json'') = Inl e0 \<or>
     readMeta s (getCacheFilePath_simple w p @ ''.meta.json'') = Inr cachedMeta \<and>
       getDropboxInstance_simple w s = (s0, Inl e0) \<or>
     readMeta s (getCacheFilePath_simple w p @ ''.meta.json'') = Inr cachedMeta \<and>
       getDropboxInstance_simple w s = (s0, Inr c0) \<and>
       api_filesGetMetadata w (length (trace s0)) (accessToken c0) p = Inl e0 \<or>
     readMeta s (getCacheFilePath_simple w p @ ''.meta.json'') = Inr cachedMeta \<and>
       getDropboxInstance_simple w s = (s0, Inr c0) \<and>
       api_filesGetMetadata w (length (trace s0)) (accessToken c0) p = Inr currentMeta \<and>
       rev_id currentMeta \<noteq> rev_id cachedMeta) \<and>
    downloadFile_simple w s p = (s', Inr x)"
  then have "\<exists>s1 k. checkCache_simple w s p = (s1, k) \<and> k \<noteq> Fresh"
    by (auto simp add: checkCache_simple_def filesGetMetadata_def Let_def)
  then obtain s1 k where ck: "checkCache_simple w s p = (s1, k)" "k \<noteq> Fresh" by blast
  from a ck have t: "tryDownload_simple w s1 p = (s', Inr x)"
    by (cases k) (auto simp add: downloadFile_simple_def)
  from checkCache_simple_effect [OF ck(1)] obtain evs0 where
    e0: "files s1 = files s" "trace s1 = trace s @ evs0" "\<forall>ev \<in> set evs0. is_quiet ev"
    by blast
  let ?mr = "\<lambda>r. \<lparr>rev_id = rev_id r, server_modified = server_modified r,
                   last_updated = None :: string option\<rparr>"
  from tryDownload_simple_Inr [OF t] obtain evs1 c r b where
    e: "x = getCacheFilePath_simple w p"
      "trace s' = trace s1 @ evs1 @
        [Download (accessToken c) p (Inr r), WriteFile x (Binary b),
         WriteFile (x @ ''.meta.json'') (Json (?mr r))]"
      "\<forall>ev \<in> set evs1. is_quiet ev" "fileBinary r = Some b"
      "api_filesDownload w (length (trace s1 @ evs1)) (accessToken c) p = Inr r"
      "files s' = (files s1)(x \<mapsto> Binary b, x @ ''.meta.json'' \<mapsto> Json (?mr r))"
    by blast
  from e(1) show "x = getCacheFilePath_simple w p" .
  let ?evs = "evs0 @ evs1"
  let ?m = "?mr r"
  have len: "length (trace s1 @ evs1) = length (trace s) + length ?evs"
    by (simp add: e0(2))
  have qu: "\<forall>ev \<in> set ?evs. is_quiet ev"
    using e0(3) e(3) by auto
  then have pre: "\<forall>ev \<in> set ?evs. is_preliminary ev"
    by (auto intro: is_preliminary_quiet)
  then have nw: "\<forall>ev \<in> set ?evs. \<not> is_write ev" by simp
  have n0: "new_events s s' = ?evs @
      [Download (accessToken c) p (Inr r), WriteFile x (Binary b),
       WriteFile (x @ ''.meta.json'') (Json ?m)]"
    using e(2) e0(2) by (simp add: new_events_def)
  have fl: "files s' = (files s)(x \<mapsto> Binary b, x @ ''.meta.json'' \<mapsto> Json ?m)"
    using e(6) e0(1) by simp
  have f1: "filter is_download (new_events s s') = [Download (accessToken c) p (Inr r)]"
    using qu by (simp add: n0 filter_none)
  have f3: "filter is_write (new_events s s') =
      [WriteFile x (Binary b), WriteFile (x @ ''.meta.json'') (Json ?m)]"
    using pre by (simp add: n0 filter_none)
  have xy: "x \<noteq> x @ ''.meta.json''" by simp
  note wo = write_order [where fs = "files s", OF n0 nw xy]
  have f4: "apply_writes (files s) (new_events s s') = files s'"
    using wo(1) fl by simp
  have f5: "\<forall>n. WriteFile (x @ ''.meta.json'') (Json ?m) \<in> set (take n (new_events s s')) \<longrightarrow>
      apply_writes (files s) (take n (new_events s s')) x = Some (Binary b)"
    using wo(2) by blast
  have api: "api_filesDownload w (length (trace s) + length ?evs) (accessToken c) p = Inr r"
    using e(5) len by (simp add: add.assoc)
  from n0 pre api e(4) f1 f3 fl f4 f5
  show "(\<exists>evs tok r b m.
         new_events s s' = evs @
           [Download tok p (Inr r), WriteFile x (Binary b),
            WriteFile (x @ ''.meta.json'') (Json m)] \<and>
         (\<forall>ev \<in> set evs. is_preliminary ev) \<and>
         api_filesDownload w (length (trace s) + length evs) tok p = Inr r \<and>
         fileBinary r = Some b \<and>
         m = \<lparr>rev_id = rev_id r, server_modified = server_modified r, last_updated = None\<rparr> \<and>
         filter is_download (new_events s s') = [Download tok p (Inr r)] \<and>
         filter is_write (new_events s s') =
           [WriteFile x (Binary b), WriteFile (x @ ''.meta.json'') (Json m)] \<and>
         files s' = (files s)(x \<mapsto> Binary b, x @ ''.meta.json'' \<mapsto> Json m) \<and>
         apply_writes (files s) (new_events s s') = files s' \<and>
         (\<forall>n. WriteFile (x @ ''.meta.json'') (Json m) \<in> set (take n (new_events s s')) \<longrightarrow>
              apply_writes (files s) (take n (new_events s s')) x = Some (Binary b)))"
    by (intro exI [of _ ?evs] exI [of _ "accessToken c"] exI [of _ r] exI [of _ b]
        exI [of _ ?m]) (intro conjI refl; assumption)
qed

theorem changed_copy_is_downloaded_content_first_witness:
  "downloadFile world_revised cached_warm_state ''/a'' 3 = (fst (downloadFile world_revised cached_warm_state ''/a'' 3), Inr ''/tmp/dropbox_cache/ca97'') \<and>
   (\<exists>evs tok r b m.
      new_events cached_warm_state (fst (downloadFile world_revised cached_warm_state ''/a'' 3)) = evs @
        [Download tok ''/a'' (Inr r), WriteFile ''/tmp/dropbox_cache/ca97'' (Binary b),
         WriteFile (''/tmp/dropbox_cache/ca97'' @ ''.meta.json'') (Json m)] \<and>
      (\<forall>ev \<in> set evs. is_preliminary ev) \<and>
      api_filesDownload world_revised (length (trace cached_warm_state) + length evs) tok ''/a'' = Inr r \<and>
      fileBinary r = Some b \<and>
      m = new_meta world_revised r (length (trace cached_warm_state) + length evs + 2) \<and>
      filter download_ok (new_events cached_warm_state (fst (downloadFile world_revised cached_warm_state ''/a'' 3))) = [Download tok ''/a'' (Inr r)] \<and>
      length (filter is_download (new_events cached_warm_state (fst (downloadFile world_revised cached_warm_state ''/a'' 3)))) = Suc (length (filter is_download evs)) \<and>
      filter is_write (new_events cached_warm_state (fst (downloadFile world_revised cached_warm_state ''/a'' 3))) =
        [WriteFile ''/tmp/dropbox_cache/ca97'' (Binary b), WriteFile (''/tmp/dropbox_cache/ca97'' @ ''.meta.json'') (Json m)] \<and>
      files (fst (downloadFile world_revised cached_warm_state ''/a'' 3)) = (files cached_warm_state)(''/tmp/dropbox_cache/ca97'' \<mapsto> Binary b, ''/tmp/dropbox_cache/ca97'' @ ''.meta.json'' \<mapsto> Json m) \<and>
      apply_writes (files cached_warm_state) (new_events cached_warm_state (fst (downloadFile world_revised cached_warm_state ''/a'' 3))) = files (fst (downloadFile world_revised cached_warm_state ''/a'' 3)) \<and>
      (\<forall>n. WriteFile (''/tmp/dropbox_cache/ca97'' @ ''.meta.json'') (Json m) \<in> set (take n (new_events cached_warm_state (fst (downloadFile world_revised cached_warm_state ''/a'' 3)))) \<longrightarrow>
           apply_writes (files cached_warm_state) (take n (new_events cached_warm_state (fst (downloadFile world_revised cached_warm_state ''/a'' 3)))) ''/tmp/dropbox_cache/ca97'' = Some (Binary b))) \<and>
   downloadFile_simple world_revised cached_warm_state ''/a'' = (fst (downloadFile_simple world_revised cached_warm_state ''/a''), Inr ''/tmp/ijcvwabot_dropbox_cache/ca97'') \<and>
   (\<exists>evs tok r b m.
      new_events cached_warm_state (fst (downloadFile_simple world_revised cached_warm_state ''/a'')) = evs @
        [Download tok ''/a'' (Inr r), WriteFile ''/tmp/ijcvwabot_dropbox_cache/ca97'' (Binary b),
         WriteFile (''/tmp/ijcvwabot_dropbox_cache/ca97'' @ ''.meta.json'') (Json m)] \<and>
      (\<forall>ev \<in> set evs. is_preliminary ev) \<and>
      api_filesDownload world_revised (length (trace cached_warm_state) + length evs) tok ''/a'' = Inr r \<and>
      fileBinary r = Some b \<and>
      m = \<lparr>rev_id = rev_id r, server_modified = server_modified r, last_updated = None\<rparr> \<and>
      filter is_download (new_events cached_warm_state (fst (downloadFile_simple world_revised cached_warm_state ''/a''))) = [Download tok ''/a'' (Inr r)] \<and>
      filter is_write (new_events cached_warm_state (fst (downloadFile_simple world_revised cached_warm_state ''/a''))) =
        [WriteFile ''/tmp/ijcvwabot_dropbox_cache/ca97'' (Binary b), WriteFile (''/tmp/ijcvwabot_dropbox_cache/ca97'' @ ''.meta.json'') (Json m)] \<and>
      files (fst (downloadFile_simple world_revised cached_warm_state ''/a'')) = (files cached_warm_state)(''/tmp/ijcvwabot_dropbox_cache/ca97'' \<mapsto> Binary b, ''/tmp/ijcvwabot_dropbox_cache/ca97'' @ ''.meta.json'' \<mapsto> Json m) \<and>
      apply_writes (files cached_warm_state) (new_events cached_warm_state (fst (downloadFile_simple world_revised cached_warm_state ''/a''))) = files (fst (downloadFile_simple world_revised cached_warm_state ''/a'')) \<and>
      (\<forall>n. WriteFile (''/tmp/ijcvwabot_dropbox_cache/ca97'' @ ''.meta.json'') (Json m) \<in> set (take n (new_events cached_warm_state (fst (downloadFile_simple world_revised cached_warm_state ''/a'')))) \<longrightarrow>
           apply_writes (files cached_warm_state) (take n (new_events cached_warm_state (fst (downloadFile_simple world_revised cached_warm_state ''/a'')))) ''/tmp/ijcvwabot_dropbox_cache/ca97'' = Some (Binary b)))"
proof -
  let ?m1 = "\<lparr>rev_id = Some ''rev1'', server_modified = Some ''d1'', last_updated = Some ''T0''\<rparr>"
  let ?m1' = "\<lparr>rev_id = Some ''rev1'', server_modified = Some ''d1'',
               last_updated = None :: string option\<rparr>"
  let ?cur = "\<lparr>rev_id = Some ''rev2'', server_modified = Some ''d2''\<rparr>"
  let ?sg = "fst (getDropboxInstance_simple world_revised cached_warm_state)"
  have d1: "downloadFile world_revised cached_warm_state ''/a'' 3 = (fst (downloadFile world_revised cached_warm_state ''/a'' 3), Inr ''/tmp/dropbox_cache/ca97'')"
    by (simp add: model_defs world_revised_def example_world_def cached_warm_state_def
        warm_state_def cold_state_def cached_files_def Let_def downloadLoop.simps)
  have d2: "downloadFile_simple world_revised cached_warm_state ''/a'' = (fst (downloadFile_simple world_revised cached_warm_state ''/a''), Inr ''/tmp/ijcvwabot_dropbox_cache/ca97'')"
    by (simp add: model_defs world_revised_def example_world_def cached_warm_state_def
        warm_state_def cold_state_def cached_files_def Let_def)
  have g1: "files cached_warm_state (getCacheFilePath world_revised ''/a'') \<noteq> None \<and>
    files cached_warm_state (getCacheFilePath world_revised ''/a'' @ ''.meta.json'') \<noteq> None \<and>
    (readMeta cached_warm_state (getCacheFilePath world_revised ''/a'' @ ''.meta.json'') = Inl (Error []) \<or>
     readMeta cached_warm_state (getCacheFilePath world_revised ''/a'' @ ''.meta.json'') = Inr ?m1 \<and>
       getDropboxInstance world_revised cached_warm_state = (cached_warm_state, Inl (Error [])) \<or>
     readMeta cached_warm_state (getCacheFilePath world_revised ''/a'' @ ''.meta.json'') = Inr ?m1 \<and>
       getDropboxInstance world_revised cached_warm_state = (cached_warm_state, Inr (Dropbox (Some ''tok0''))) \<and>
       api_filesGetMetadata world_revised (length (trace cached_warm_state)) (accessToken (Dropbox (Some ''tok0''))) ''/a'' =
         Inl (Error []) \<or>
     readMeta cached_warm_state (getCacheFilePath world_revised ''/a'' @ ''.meta.json'') = Inr ?m1 \<and>
       getDropboxInstance world_revised cached_warm_state = (cached_warm_state, Inr (Dropbox (Some ''tok0''))) \<and>
       api_filesGetMetadata world_revised (length (trace cached_warm_state)) (accessToken (Dropbox (Some ''tok0''))) ''/a'' =
         Inr ?cur \<and>
       rev_id ?cur \<noteq> rev_id ?m1)"
    by (simp add: model_defs world_revised_def example_world_def cached_warm_state_def
        warm_state_def cold_state_def cached_files_def Let_def)
  have g2: "files cached_warm_state (getCacheFilePath_simple world_revised ''/a'') \<noteq> None \<and>
    files cached_warm_state (getCacheFilePath_simple world_revised ''/a'' @ ''.meta.json'') \<noteq> None \<and>
    (readMeta cached_warm_state (getCacheFilePath_simple world_revised ''/a'' @ ''.meta.json'') = Inl (Error []) \<or>
     readMeta cached_warm_state (getCacheFilePath_simple world_revised ''/a'' @ ''.meta.json'') = Inr ?m1' \<and>
       getDropboxInstance_simple world_revised cached_warm_state = (?sg, Inl (Error [])) \<or>
     readMeta cached_warm_state (getCacheFilePath_simple world_revised ''/a'' @ ''.meta.json'') = Inr ?m1' \<and>
       getDropboxInstance_simple world_revised cached_warm_state = (?sg, Inr (Dropbox (Some ''tok2''))) \<and>
       api_filesGetMetadata world_revised (length (trace ?sg)) (accessToken (Dropbox (Some ''tok2''))) ''/a'' =
         Inl (Error []) \<or>
     readMeta cached_warm_state (getCacheFilePath_simple world_revised ''/a'' @ ''.meta.json'') = Inr ?m1' \<and>
       getDropboxInstance_simple world_revised cached_warm_state = (?sg, Inr (Dropbox (Some ''tok2''))) \<and>
       api_filesGetMetadata world_revised (length (trace ?sg)) (accessToken (Dropbox (Some ''tok2''))) ''/a'' =
         Inr ?cur \<and>
       rev_id ?cur \<noteq> rev_id ?m1')"
    by (simp add: model_defs world_revised_def example_world_def cached_warm_state_def
        warm_state_def cold_state_def cached_files_def Let_def)
  note t = changed_copy_is_downloaded_content_first
  note r1 = t [THEN conjunct1, rule_format, OF conjI [OF g1 [THEN conjunct1]
      conjI [OF g1 [THEN conjunct2, THEN conjunct1] conjI [OF g1 [THEN conjunct2, THEN conjunct2] d1]]],
      THEN conjunct2]
  note r2 = t [THEN conjunct2, rule_format, OF conjI [OF g2 [THEN conjunct1]
      conjI [OF g2 [THEN conjunct2, THEN conjunct1] conjI [OF g2 [THEN conjunct2, THEN conjunct2] d2]]],
      THEN conjunct2]
  from d1 r1 d2 r2 show ?thesis
    by (intro conjI)
qed

subsection \<open>Claim C7: when the token is refreshed, and how a refresh fails\<close>

text \<open>
  Claim C7 as stated fails: the error raised when the token endpoint answers 400 with
  the body \<open>invalid_grant\<close> is a plain \<open>Error\<close> with a fixed message and no status.
\<close>

theorem getDropboxInstance_error_is_generic_counterexample:
  "token_endpoint world_token_rejected 0 =
     TokenFailure (Some (400, ''invalid_grant'')) ''Request failed with status code 400'' \<and>
   getDropboxInstance world_token_rejected cold_state =
     (cold_state\<lparr>trace := [TokenRequest (TokenFailure (Some (400, ''invalid_grant''))
                                 ''Request failed with status code 400'')]\<rparr>,
      Inl (Error ''No se pudo refrescar el token de acceso a Dropbox'')) \<and>
   status_of (Error ''No se pudo refrescar el token de acceso a Dropbox'') = None"
  by (simp add: getDropboxInstance_def refreshAccessToken_def truthy_def Let_def
      world_token_rejected_def example_world_def cold_state_def)

text \<open>
  Claim C7, amended. \<open>getDropboxInstance\<close> returns the held client, with no request, when
  a client and a non-empty token are held. Otherwise it makes exactly one request to the
  token endpoint: when the answer is a JSON object it stores its \<open>access_token\<close> and
  returns a client bound to it; when the request fails it leaves the client and the token
  as they were and fails with the plain \<open>Error\<close> of fixed message, which carries neither
  the status nor the body of the answer, and it does not retry.
\<close>

theorem getDropboxInstance_refreshes_when_nothing_held:
  "(dbxInstance s = Some c \<and> truthy (currentAccessToken s) \<longrightarrow>
      getDropboxInstance w s = (s, Inr c)) \<and>
   ((dbxInstance s = None \<or> \<not> truthy (currentAccessToken s)) \<and>
    token_endpoint w (length (trace s)) = TokenJson t \<longrightarrow>
      getDropboxInstance w s =
        (s\<lparr>trace := trace s @ [TokenRequest (TokenJson t)], currentAccessToken := t,
           dbxInstance := Some (Dropbox t)\<rparr>,
         Inr (Dropbox t))) \<and>
   ((dbxInstance s = None \<or> \<not> truthy (currentAccessToken s)) \<and>
    token_endpoint w (length (trace s)) = TokenFailure resp message \<longrightarrow>
      getDropboxInstance w s =
        (s\<lparr>trace := trace s @ [TokenRequest (TokenFailure resp message)]\<rparr>,
         Inl (Error ''No se pudo refrescar el token de acceso a Dropbox'')))"
  by (auto simp add: getDropboxInstance_def refreshAccessToken_def Let_def)

theorem getDropboxInstance_refreshes_when_nothing_held_witness:
  "getDropboxInstance example_world warm_state = (warm_state, Inr (Dropbox (Some ''tok0''))) \<and>
   getDropboxInstance example_world cold_state =
     (cold_state\<lparr>trace := [TokenRequest (TokenJson (Some ''tok1''))],
                 currentAccessToken := Some ''tok1'',
                 dbxInstance := Some (Dropbox (Some ''tok1''))\<rparr>,
      Inr (Dropbox (Some ''tok1''))) \<and>
   getDropboxInstance world_token_rejected cold_state =
     (cold_state\<lparr>trace := [TokenRequest (TokenFailure (Some (400, ''invalid_grant''))
                                 ''Request failed with status code 400'')]\<rparr>,
      Inl (Error ''No se pudo refrescar el token de acceso a Dropbox''))"
proof -
  have h1: "dbxInstance warm_state = Some (Dropbox (Some ''tok0'')) \<and>
            truthy (currentAccessToken warm_state)"
    by (simp add: warm_state_def cold_state_def truthy_def)
  have h2: "(dbxInstance cold_state = None \<or> \<not> truthy (currentAccessToken cold_state)) \<and>
            token_endpoint example_world (length (trace cold_state)) = TokenJson (Some ''tok1'')"
    by (simp add: cold_state_def example_world_def)
  have h3: "(dbxInstance cold_state = None \<or> \<not> truthy (currentAccessToken cold_state)) \<and>
            token_endpoint world_token_rejected (length (trace cold_state)) =
              TokenFailure (Some (400, ''invalid_grant'')) ''Request failed with status code 400''"
    by (simp add: cold_state_def world_token_rejected_def example_world_def)
  have tr: "trace cold_state = []"
    by (simp add: cold_state_def)
  from getDropboxInstance_refreshes_when_nothing_held
         [THEN conjunct1, rule_format, OF h1, of example_world]
       getDropboxInstance_refreshes_when_nothing_held
         [THEN conjunct2, THEN conjunct1, rule_format, OF h2]
       getDropboxInstance_refreshes_when_nothing_held
         [THEN conjunct2, THEN conjunct2, rule_format, OF h3]
  show ?thesis
    by (simp add: tr)
qed

subsection \<open>Claim C8: the two modules on runs without failure\<close>

lemma getDropboxInstance_no_failure:
  "\<forall>t. \<exists>a. token_endpoint w t = TokenJson a \<Longrightarrow>
   \<exists>s1 c. getDropboxInstance w s = (s1, Inr c) \<and> files s1 = files s"
proof -
  assume "\<forall>t. \<exists>a. token_endpoint w t = TokenJson a"
  then obtain a where "token_endpoint w (length (trace s)) = TokenJson a" by blast
  then show ?thesis
    by (simp add: getDropboxInstance_cases)
qed

lemma getDropboxInstance_simple_no_failure:
  assumes "\<forall>t. \<exists>a. token_endpoint w t = TokenJson a"
    and "\<forall>t tok. \<exists>a. api_usersGetCurrentAccount w t tok = Inr a"
  shows "\<exists>s1 c. getDropboxInstance_simple w s = (s1, Inr c) \<and> files s1 = files s"
proof -
  from assms(1) obtain a where a: "token_endpoint w (length (trace s)) = TokenJson a" by blast
  from assms(2) obtain acc where
    "api_usersGetCurrentAccount w (Suc (length (trace s))) a = Inr acc" by blast
  with a show ?thesis
    by (simp add: getDropboxInstance_simple_def usersGetCurrentAccount_def Let_def
        split: option.splits)
qed

lemma checkCache_no_failure:
  assumes "\<forall>t. \<exists>a. token_endpoint w t = TokenJson a"
    and "\<forall>t tok. api_filesGetMetadata w t tok p = Inr currentMeta"
  shows "\<exists>s1. checkCache w s p =
           (s1, expected_check (files s (getCacheFilePath w p))
                  (files s (getCacheFilePath w p @ ''.meta.json'')) (rev_id currentMeta)) \<and>
         files s1 = files s"
proof -
  from getDropboxInstance_no_failure [OF assms(1), of s]
  obtain s0 c where g: "getDropboxInstance w s = (s0, Inr c)" "files s0 = files s" by blast
  show ?thesis
  proof (cases "files s (getCacheFilePath w p)")
    case None
    then show ?thesis by (simp add: checkCache_def Let_def)
  next
    case (Some v)
    show ?thesis
    proof (cases "files s (getCacheFilePath w p @ ''.meta.json'')")
      case None
      with Some show ?thesis by (simp add: checkCache_def Let_def)
    next
      case (Some d)
      with \<open>files s (getCacheFilePath w p) = Some v\<close> g assms(2) show ?thesis
        by (cases d) (auto simp add: checkCache_def readMeta_def filesGetMetadata_def Let_def)
    qed
  qed
qed

lemma checkCache_simple_no_failure:
  assumes "\<forall>t. \<exists>a. token_endpoint w t = TokenJson a"
    and "\<forall>t tok. \<exists>a. api_usersGetCurrentAccount w t tok = Inr a"
    and "\<forall>t tok. api_filesGetMetadata w t tok p = Inr currentMeta"
  shows "\<exists>s1. checkCache_simple w s p =
           (s1, expected_check (files s (getCacheFilePath_simple w p))
                  (files s (getCacheFilePath_simple w p @ ''.meta.json'')) (rev_id currentMeta)) \<and>
         files s1 = files s"
proof -
  from getDropboxInstance_simple_no_failure [OF assms(1,2), of s]
  obtain s0 c where g: "getDropboxInstance_simple w s = (s0, Inr c)" "files s0 = files s"
    by blast
  show ?thesis
  proof (cases "files s (getCacheFilePath_simple w p)")
    case None
    then show ?thesis by (simp add: checkCache_simple_def Let_def)
  next
    case (Some v)
    show ?thesis
    proof (cases "files s (getCacheFilePath_simple w p @ ''.meta.json'')")
      case None
      with Some show ?thesis by (simp add: checkCache_simple_def Let_def)
    next
      case (Some d)
      with \<open>files s (getCacheFilePath_simple w p) = Some v\<close> g assms(3) show ?thesis
        by (cases d)
          (auto simp add: checkCache_simple_def readMeta_def filesGetMetadata_def Let_def)
    qed
  qed
qed

lemma downloadLoop_no_failure:
  assumes "\<forall>t. \<exists>a. token_endpoint w t = TokenJson a"
    and "\<forall>t tok. api_filesDownload w t tok p = Inr r" and "fileBinary r = Some b"
    and "1 \<le> maxRetries"
  shows "\<exists>s' t. downloadLoop w s p 1 maxRetries None = (s', Inr (getCacheFilePath w p)) \<and>
           files s' = (files s)(getCacheFilePath w p \<mapsto> Binary b,
             getCacheFilePath w p @ ''.meta.json'' \<mapsto> Json (new_meta w r t))"
proof -
  from getDropboxInstance_no_failure [OF assms(1), of s]
  obtain s0 c where g: "getDropboxInstance w s = (s0, Inr c)" "files s0 = files s" by blast
  obtain s1 res where t: "tryDownload w s p = (s1, res)" by (cases "tryDownload w s p")
  with g assms(2,3) have
    "res = Inr (getCacheFilePath w p) \<and>
     files s1 = (files s)(getCacheFilePath w p \<mapsto> Binary b,
       getCacheFilePath w p @ ''.meta.json'' \<mapsto> Json (new_meta w r (length (trace s0) + 2)))"
    by (auto simp add: tryDownload_cases new_meta_def)
  with downloadLoop_step [OF assms(4) t, of None] show ?thesis
    by auto
qed

lemma tryDownload_simple_no_failure:
  assumes "\<forall>t. \<exists>a. token_endpoint w t = TokenJson a"
    and "\<forall>t tok. \<exists>a. api_usersGetCurrentAccount w t tok = Inr a"
    and "\<forall>t tok. api_filesDownload w t tok p = Inr r" and "fileBinary r = Some b"
  shows "\<exists>s'. tryDownload_simple w s p = (s', Inr (getCacheFilePath_simple w p)) \<and>
           files s' = (files s)(getCacheFilePath_simple w p \<mapsto> Binary b,
             getCacheFilePath_simple w p @ ''.meta.json'' \<mapsto>
               Json \<lparr>rev_id = rev_id r, server_modified = server_modified r,
                      last_updated = None\<rparr>)"
proof -
  from getDropboxInstance_simple_no_failure [OF assms(1,2), of s]
  obtain s0 c where g: "getDropboxInstance_simple w s = (s0, Inr c)" "files s0 = files s"
    by blast
  with assms(3,4) show ?thesis
    by (simp add: tryDownload_simple_cases)
qed

lemma expected_check_same:
  "d = d' \<Longrightarrow> same_meta m m' \<Longrightarrow>
   (expected_check d m remote = Fresh) = (expected_check d' m' remote = Fresh)"
  by (cases "(m, m')" rule: same_meta.cases; cases d') auto

text \<open>
  Claim C8 as stated fails: on a run in which every call succeeds, the two \<open>downloadFile\<close>
  return different local paths (the modules use different cache directories), and the
  metadata records they write differ in \<open>last_updated\<close>.
\<close>

theorem downloadFile_paths_differ_counterexample:
  "snd (downloadFile example_world cold_state ''/a'' 3) = Inr ''/tmp/dropbox_cache/ca97'' \<and>
   snd (downloadFile_simple example_world cold_state ''/a'') =
     Inr ''/tmp/ijcvwabot_dropbox_cache/ca97'' \<and>
   files (fst (downloadFile example_world cold_state ''/a'' 3))
     ''/tmp/dropbox_cache/ca97.meta.json'' =
     Some (Json \<lparr>rev_id = Some ''rev1'', server_modified = Some ''d1'',
                  last_updated = Some ''T''\<rparr>) \<and>
   files (fst (downloadFile_simple example_world cold_state ''/a''))
     ''/tmp/ijcvwabot_dropbox_cache/ca97.meta.json'' =
     Some (Json \<lparr>rev_id = Some ''rev1'', server_modified = Some ''d1'',
                  last_updated = None\<rparr>)"
  by (simp add: model_defs example_world_def cold_state_def Let_def downloadLoop.simps)

text \<open>
  Claim C8, amended. On a run in which no call fails (every token request answers with a
  JSON object, the account and metadata queries answer, the download answers with content
  in \<open>fileBinary\<close>), with \<open>maxRetries\<close> at least 1, and from cache entries for the path that
  agree between the two cache directories, each \<open>downloadFile\<close> returns the cache path of
  the remote path in its own cache directory (the two paths are never equal), and the two
  leave the same content and metadata records that agree on \<open>rev\<close> and
  \<open>server_modified\<close> (the record of the retrying module also has \<open>last_updated\<close>).
\<close>

theorem downloadFile_modules_agree:
  "(\<forall>t. \<exists>a. token_endpoint w t = TokenJson a) \<and>
   (\<forall>t tok. \<exists>a. api_usersGetCurrentAccount w t tok = Inr a) \<and>
   (\<forall>t tok. api_filesGetMetadata w t tok p = Inr currentMeta) \<and>
   (\<forall>t tok. api_filesDownload w t tok p = Inr r) \<and> fileBinary r = Some b \<and>
   1 \<le> maxRetries \<and>
   files s (getCacheFilePath w p) = files s (getCacheFilePath_simple w p) \<and>
   same_meta (files s (getCacheFilePath w p @ ''.meta.json''))
     (files s (getCacheFilePath_simple w p @ ''.meta.json'')) \<longrightarrow>
     getCacheFilePath w p \<noteq> getCacheFilePath_simple w p \<and>
     (\<exists>s' s''.
        downloadFile w s p maxRetries = (s', Inr (getCacheFilePath w p)) \<and>
        downloadFile_simple w s p = (s'', Inr (getCacheFilePath_simple w p)) \<and>
        files s' (getCacheFilePath w p) = files s'' (getCacheFilePath_simple w p) \<and>
        same_meta (files s' (getCacheFilePath w p @ ''.meta.json''))
          (files s'' (getCacheFilePath_simple w p @ ''.meta.json'')))"
proof (intro impI conjI)
  show "getCacheFilePath w p \<noteq> getCacheFilePath_simple w p"
    by (simp add: getCacheFilePath_def getCacheFilePath_simple_def cacheDir_def
        cacheDir_simple_def)
next
  assume a: "(\<forall>t. \<exists>a. token_endpoint w t = TokenJson a) \<and>
   (\<forall>t tok. \<exists>a. api_usersGetCurrentAccount w t tok = Inr a) \<and>
   (\<forall>t tok. api_filesGetMetadata w t tok p = Inr currentMeta) \<and>
   (\<forall>t tok. api_filesDownload w t tok p = Inr r) \<and> fileBinary r = Some b \<and>
   1 \<le> maxRetries \<and>
   files s (getCacheFilePath w p) = files s (getCacheFilePath_simple w p) \<and>
   same_meta (files s (getCacheFilePath w p @ ''.meta.json''))
     (files s (getCacheFilePath_simple w p @ ''.meta.json''))"
  then have tk: "\<forall>t. \<exists>a. token_endpoint w t = TokenJson a"
    and ac: "\<forall>t tok. \<exists>a. api_usersGetCurrentAccount w t tok = Inr a"
    and me: "\<forall>t tok. api_filesGetMetadata w t tok p = Inr currentMeta"
    and dl: "\<forall>t tok. api_filesDownload w t tok p = Inr r"
    and fb: "fileBinary r = Some b" and le: "1 \<le> maxRetries"
    and f1: "files s (getCacheFilePath w p) = files s (getCacheFilePath_simple w p)"
    and f2: "same_meta (files s (getCacheFilePath w p @ ''.meta.json''))
      (files s (getCacheFilePath_simple w p @ ''.meta.json''))"
    by simp_all
  let ?lp = "getCacheFilePath w p" and ?lq = "getCacheFilePath_simple w p"
  let ?k = "expected_check (files s ?lp) (files s (?lp @ ''.meta.json'')) (rev_id currentMeta)"
  let ?k' = "expected_check (files s ?lq) (files s (?lq @ ''.meta.json'')) (rev_id currentMeta)"
  from checkCache_no_failure [OF tk me, of s]
  obtain s1 where c1: "checkCache w s p = (s1, ?k)" "files s1 = files s" by blast
  from checkCache_simple_no_failure [OF tk ac me, of s]
  obtain s2 where c2: "checkCache_simple w s p = (s2, ?k')" "files s2 = files s" by blast
  have same: "(?k = Fresh) = (?k' = Fresh)"
    by (rule expected_check_same [OF f1 f2])
  show "\<exists>s' s''.
        downloadFile w s p maxRetries = (s', Inr ?lp) \<and>
        downloadFile_simple w s p = (s'', Inr ?lq) \<and>
        files s' ?lp = files s'' ?lq \<and>
        same_meta (files s' (?lp @ ''.meta.json'')) (files s'' (?lq @ ''.meta.json''))"
  proof (cases "?k = Fresh")
    case True
    with same have "?k' = Fresh" by simp
    with True c1 c2 have "downloadFile w s p maxRetries = (s1, Inr ?lp)"
      "downloadFile_simple w s p = (s2, Inr ?lq)"
      by (simp_all add: downloadFile_def downloadFile_simple_def)
    with c1(2) c2(2) f1 f2 show ?thesis by simp
  next
    case False
    with same have False': "?k' \<noteq> Fresh" by simp
    from downloadLoop_no_failure [OF tk dl fb le, of s1]
    obtain s' t where l1: "downloadLoop w s1 p 1 maxRetries None = (s', Inr ?lp)"
      "files s' = (files s1)(?lp \<mapsto> Binary b, ?lp @ ''.meta.json'' \<mapsto> Json (new_meta w r t))"
      by blast
    from tryDownload_simple_no_failure [OF tk ac dl fb, of s2]
    obtain s'' where l2: "tryDownload_simple w s2 p = (s'', Inr ?lq)"
      "files s'' = (files s2)(?lq \<mapsto> Binary b, ?lq @ ''.meta.json'' \<mapsto>
         Json \<lparr>rev_id = rev_id r, server_modified = server_modified r, last_updated = None\<rparr>)"
      by blast
    from False c1(1) l1(1) have d1: "downloadFile w s p maxRetries = (s', Inr ?lp)"
      by (cases ?k) (simp_all add: downloadFile_def)
    from False' c2(1) l2(1) have d2: "downloadFile_simple w s p = (s'', Inr ?lq)"
      by (cases ?k') (simp_all add: downloadFile_simple_def)
    from d1 d2 l1(2) l2(2) show ?thesis
      by (simp add: new_meta_def)
  qed
qed

theorem downloadFile_modules_agree_witness:
  "getCacheFilePath example_world ''/a'' \<noteq> getCacheFilePath_simple example_world ''/a'' \<and>
   (\<exists>s' s''.
      downloadFile example_world cold_state ''/a'' 3 =
        (s', Inr (getCacheFilePath example_world ''/a'')) \<and>
      downloadFile_simple example_world cold_state ''/a'' =
        (s'', Inr (getCacheFilePath_simple example_world ''/a'')) \<and>
      files s' (getCacheFilePath example_world ''/a'') =
        files s'' (getCacheFilePath_simple example_world ''/a'') \<and>
      same_meta (files s' (getCacheFilePath example_world ''/a'' @ ''.meta.json''))
        (files s'' (getCacheFilePath_simple example_world ''/a'' @ ''.meta.json'')))"
proof -
  let ?m = "\<lparr>rev_id = Some ''rev1'', server_modified = Some ''d1''\<rparr>"
  let ?r = "\<lparr>rev_id = Some ''rev1'', server_modified = Some ''d1'',
             fileBinary = Some ''abc'', fileBlob = None\<rparr>"
  have h: "(\<forall>t. \<exists>a. token_endpoint example_world t = TokenJson a) \<and>
   (\<forall>t tok. \<exists>a. api_usersGetCurrentAccount example_world t tok = Inr a) \<and>
   (\<forall>t tok. api_filesGetMetadata example_world t tok ''/a'' = Inr ?m) \<and>
   (\<forall>t tok. api_filesDownload example_world t tok ''/a'' = Inr ?r) \<and>
   fileBinary ?r = Some ''abc'' \<and> (1::int) \<le> 3 \<and>
   files cold_state (getCacheFilePath example_world ''/a'') =
     files cold_state (getCacheFilePath_simple example_world ''/a'') \<and>
   same_meta (files cold_state (getCacheFilePath example_world ''/a'' @ ''.meta.json''))
     (files cold_state (getCacheFilePath_simple example_world ''/a'' @ ''.meta.json''))"
    by (simp add: example_world_def cold_state_def)
  from downloadFile_modules_agree [rule_format, OF h]
  show ?thesis .
qed

subsection \<open>Claim C9: a 401 in the last attempt keeps the credentials\<close>

text \<open>
  Claim C9. When the attempt numbered \<open>maxRetries\<close> obtains a client and its download fails
  with status 401, the loop stops with that error and a state that differs from the state
  before the download only by the trace: \<open>dbxInstance\<close> and \<open>currentAccessToken\<close> keep
  their values, and when the token is non-empty the next \<open>getDropboxInstance\<close> returns the
  same client without a token request. Whenever \<open>downloadFile\<close> fails with a 401 error,
  the client of the failed last call is still held. The loop clears a held client only
  after a download that failed with status 401 in an attempt before the last.
\<close>

theorem last_auth_error_keeps_credentials:
  "(getDropboxInstance w s = (s1, Inr c) \<and>
    api_filesDownload w (length (trace s1)) (accessToken c) p = Inl e \<and>
    status_of e = Some 401 \<longrightarrow>
      downloadLoop w s p maxRetries maxRetries lastError =
        (s1\<lparr>trace := trace s1 @ [Download (accessToken c) p (Inl e)]\<rparr>, Inl e) \<and>
      dbxInstance s1 = Some c \<and>
      (truthy (currentAccessToken s1) \<longrightarrow>
         getDropboxInstance w' (s1\<lparr>trace := trace s1 @ [Download (accessToken c) p (Inl e)]\<rparr>) =
           (s1\<lparr>trace := trace s1 @ [Download (accessToken c) p (Inl e)]\<rparr>, Inr c))) \<and>
   (downloadFile w s p maxRetries = (s', Inl e) \<and> status_of e = Some 401 \<longrightarrow>
      (\<exists>c evs. dbxInstance s' = Some c \<and>
         trace s' = evs @ [Download (accessToken c) p (Inl e)])) \<and>
   (downloadLoop w s p attempt maxRetries lastError = (s', r) \<and>
    dbxInstance s = Some c \<and> dbxInstance s' = None \<longrightarrow>
      attempt < maxRetries \<and>
      (\<exists>tok e. Download tok p (Inl e) \<in> set (new_events s s') \<and> status_of e = Some 401))"
proof (intro conjI impI)
  assume a: "getDropboxInstance w s = (s1, Inr c) \<and>
    api_filesDownload w (length (trace s1)) (accessToken c) p = Inl e \<and>
    status_of e = Some 401"
  let ?s2 = "s1\<lparr>trace := trace s1 @ [Download (accessToken c) p (Inl e)]\<rparr>"
  from a have t: "tryDownload w s p = (?s2, Inl e)"
    by (simp add: tryDownload_cases)
  have le: "maxRetries \<le> maxRetries" by simp
  show "downloadLoop w s p maxRetries maxRetries lastError = (?s2, Inl e)"
    by (simp add: downloadLoop_step [OF le t])
  from a show c: "dbxInstance s1 = Some c"
    by (auto dest: getDropboxInstance_Inr)
  assume "truthy (currentAccessToken s1)"
  with c show "getDropboxInstance w' ?s2 = (?s2, Inr c)"
    by (simp add: getDropboxInstance_held)
next
  assume a: "downloadFile w s p maxRetries = (s', Inl e) \<and> status_of e = Some 401"
  obtain s1 k where ck: "checkCache w s p = (s1, k)" by (cases "checkCache w s p")
  from a ck have loop: "downloadLoop w s1 p 1 maxRetries None = (s', Inl e)"
    by (cases k) (simp_all add: downloadFile_def)
  have le: "1 \<le> maxRetries"
  proof (rule ccontr)
    assume "\<not> 1 \<le> maxRetries"
    with loop a show False by (auto simp add: downloadLoop_exit)
  qed
  from downloadLoop_Inl [OF loop le] a
  obtain evs c where e: "trace s' = trace s1 @ evs" "evs \<noteq> []" "dbxInstance s' = Some c"
    "last evs = Download (accessToken c) p (Inl e)"
    by auto
  from e(2,4) have "evs = butlast evs @ [Download (accessToken c) p (Inl e)]"
    by (metis append_butlast_last_id)
  with e(1) have "trace s' = (trace s1 @ butlast evs) @ [Download (accessToken c) p (Inl e)]"
    by simp
  with e(3) show "\<exists>c evs. dbxInstance s' = Some c \<and>
         trace s' = evs @ [Download (accessToken c) p (Inl e)]"
    by blast
next
  assume a: "downloadLoop w s p attempt maxRetries lastError = (s', r) \<and>
    dbxInstance s = Some c \<and> dbxInstance s' = None"
  have le: "attempt \<le> maxRetries"
  proof (rule ccontr)
    assume "\<not> attempt \<le> maxRetries"
    with a show False by (auto simp add: downloadLoop_exit)
  qed
  obtain s1 r1 where t: "tryDownload w s p = (s1, r1)" by (cases "tryDownload w s p")
  note step = downloadLoop_step [OF le t, of lastError]
  have s1: "dbxInstance s1 \<noteq> None"
    using tryDownload_dbxInstance [OF t] a by auto
  have concl: "attempt < maxRetries \<and>
      (\<exists>tok e. Download tok p (Inl e) \<in> set (new_events s s') \<and> status_of e = Some 401)"
  proof (cases r1)
    case (Inr x)
    with step a s1 show ?thesis by simp
  next
    case (Inl error)
    show ?thesis
    proof (cases "status_of error = Some 401 \<and> attempt < maxRetries")
      case False
      with step a s1 Inl show ?thesis by simp
    next
      case True
      let ?s2 = "s1\<lparr>dbxInstance := None, currentAccessToken := None\<rparr>"
      from step a Inl True
      have rec: "downloadLoop w ?s2 p (attempt + 1) maxRetries (Some error) = (s', r)"
        by simp
      from downloadLoop_trace [OF rec] obtain evs2 where e2: "trace s' = trace s1 @ evs2"
        by auto
      from tryDownload_Inl [OF t [unfolded Inl]] True
      obtain evs1 c1 where e1: "trace s1 = trace s @ evs1" "evs1 \<noteq> []"
        "last evs1 = Download (accessToken c1) p (Inl error)"
        by auto
      from e1(2,3) have "Download (accessToken c1) p (Inl error) \<in> set evs1"
        by (metis last_in_set)
      with e1(1) e2 have "Download (accessToken c1) p (Inl error) \<in> set (new_events s s')"
        by (simp add: new_events_def)
      with True show ?thesis by blast
    qed
  qed
  from concl show "attempt < maxRetries" by simp
  from concl show "\<exists>tok e. Download tok p (Inl e) \<in> set (new_events s s') \<and>
      status_of e = Some 401" by simp
qed

theorem last_auth_error_keeps_credentials_witness:
  "downloadLoop world_always_expired warm_state ''/a'' 3 3 None =
     (warm_state\<lparr>trace := [Download (Some ''tok0'') ''/a''
                              (Inl (DropboxResponseError 401 ''expired_access_token/''))]\<rparr>,
      Inl (DropboxResponseError 401 ''expired_access_token/'')) \<and>
   getDropboxInstance example_world
     (warm_state\<lparr>trace := [Download (Some ''tok0'') ''/a''
                              (Inl (DropboxResponseError 401 ''expired_access_token/''))]\<rparr>) =
     (warm_state\<lparr>trace := [Download (Some ''tok0'') ''/a''
                              (Inl (DropboxResponseError 401 ''expired_access_token/''))]\<rparr>,
      Inr (Dropbox (Some ''tok0''))) \<and>
   (\<exists>c evs. dbxInstance (fst (downloadFile world_always_expired warm_state ''/a'' 1)) = Some c \<and>
      trace (fst (downloadFile world_always_expired warm_state ''/a'' 1)) =
        evs @ [Download (accessToken c) ''/a''
                 (Inl (DropboxResponseError 401 ''expired_access_token/''))]) \<and>
   (\<exists>tok e. Download tok ''/a'' (Inl e) \<in> set (new_events warm_state
        (fst (downloadLoop world_token_rejected_after warm_state ''/a'' 1 2 None))) \<and>
      status_of e = Some 401)"
proof -
  let ?e = "DropboxResponseError 401 ''expired_access_token/''"
  let ?s2 = "warm_state\<lparr>trace := [Download (Some ''tok0'') ''/a'' (Inl ?e)]\<rparr>"
  have h1: "getDropboxInstance world_always_expired warm_state =
      (warm_state, Inr (Dropbox (Some ''tok0''))) \<and>
    api_filesDownload world_always_expired (length (trace warm_state))
      (accessToken (Dropbox (Some ''tok0''))) ''/a'' = Inl ?e \<and>
    status_of ?e = Some 401"
    by (simp add: model_defs world_always_expired_def world_token_rejected_after_def example_world_def
        warm_state_def cold_state_def Let_def)
  have tr: "truthy (currentAccessToken warm_state)" "trace warm_state = []"
    by (simp_all add: warm_state_def cold_state_def truthy_def)
  have h2: "downloadFile world_always_expired warm_state ''/a'' 1 = (?s2, Inl ?e) \<and>
    status_of ?e = Some 401"
    by (simp add: model_defs world_always_expired_def world_token_rejected_after_def example_world_def
        warm_state_def cold_state_def Let_def downloadLoop.simps)
  let ?s3 = "cold_state\<lparr>trace := [Download (Some ''tok0'') ''/a'' (Inl ?e),
       TokenRequest (TokenFailure (Some (400, ''invalid_grant''))
         ''Request failed with status code 400'')]\<rparr>"
  have h3: "downloadLoop world_token_rejected_after warm_state ''/a'' 1 2 None =
      (?s3, Inl (Error ''No se pudo refrescar el token de acceso a Dropbox'')) \<and>
    dbxInstance warm_state = Some (Dropbox (Some ''tok0'')) \<and> dbxInstance ?s3 = None"
    by (simp add: model_defs world_always_expired_def world_token_rejected_after_def example_world_def
        warm_state_def cold_state_def Let_def downloadLoop.simps)
  note t = last_auth_error_keeps_credentials
  from t [THEN conjunct1, rule_format, OF h1, of 3 None]
       t [THEN conjunct1, rule_format, OF h1, THEN conjunct2, THEN conjunct2, rule_format,
          OF tr(1), of example_world]
       t [THEN conjunct2, THEN conjunct1, rule_format, OF h2]
       t [THEN conjunct2, THEN conjunct2, rule_format, OF h3]
  show ?thesis
    by (simp add: tr h2 h3)
qed

subsection \<open>Claim C10: the connection test returns a boolean\<close>

text \<open>
  Claim C10. \<open>testConnection\<close> always returns a boolean (it is a total function into
  \<open>bool\<close>: every error is caught), and the boolean is \<open>true\<close> exactly when a client is
  obtained and the account query answers with a truthy \<open>result.name.display_name\<close>.
\<close>

theorem testConnection_true_iff:
  "snd (testConnection w s) =
     (\<exists>s1 c account.
        getDropboxInstance w s = (s1, Inr c) \<and>
        api_usersGetCurrentAccount w (length (trace s1)) (accessToken c) = Inr account \<and>
        truthy (result_name_display_name account))"
  by (auto simp add: testConnection_def usersGetCurrentAccount_def Let_def
      split: prod.splits sum.splits)

theorem testConnection_true_iff_witness:
  "snd (testConnection example_world cold_state) \<and>
   \<not> snd (testConnection world_token_rejected cold_state) \<and>
   \<not> snd (testConnection
            (example_world\<lparr>api_usersGetCurrentAccount :=
               (\<lambda>t tok. Inr \<lparr>result_name_display_name = None\<rparr>)\<rparr>) cold_state)"
  using testConnection_true_iff [of example_world cold_state]
    testConnection_true_iff [of world_token_rejected cold_state]
    testConnection_true_iff [of "example_world\<lparr>api_usersGetCurrentAccount :=
               (\<lambda>t tok. Inr \<lparr>result_name_display_name = None\<rparr>)\<rparr>" cold_state]
  by (simp add: getDropboxInstance_def refreshAccessToken_def truthy_def Let_def example_world_def world_token_rejected_def cold_state_def)

end
